theory Spec2Isabelle
  imports Complex_Main "HOL-Library.Sublist"
begin

section \<open>Python values as they reach the validator\<close>

text \<open>
  Both front-ends obtain their input from a JSON parser, so the untyped values the
  validator sees are the Python images of JSON values. A Python \<open>str\<close> is modelled as a
  \<open>string\<close>, one \<open>char\<close> per code point (code points below 256). A Python \<open>dict\<close> is
  an association list that is read with \<open>map_of\<close>. A Python \<open>float\<close> is a rational, or
  one of the non-finite values the parser accepts.
\<close>

datatype pyfloat = Finite rat | Infinite bool | NaN

datatype json =
    JNull
  | JBool bool
  | JInt int
  | JFloat pyfloat
  | JStr string
  | JList "json list"
  | JDict "(string \<times> json) list"

type_synonym pydict = "(string \<times> json) list"

text \<open>Python truthiness (\<open>bool(x)\<close>, as used by \<open>if x\<close> and \<open>not x\<close>).\<close>

fun truthy :: "json \<Rightarrow> bool" where
  "truthy JNull = False"
| "truthy (JBool b) = b"
| "truthy (JInt i) = (i \<noteq> 0)"
| "truthy (JFloat (Finite q)) = (q \<noteq> 0)"
| "truthy (JFloat (Infinite s)) = True"
| "truthy (JFloat NaN) = True"
| "truthy (JStr s) = (s \<noteq> [])"
| "truthy (JList xs) = (xs \<noteq> [])"
| "truthy (JDict kvs) = (kvs \<noteq> [])"

text \<open>\<open>d.get(k)\<close> and \<open>d.get(k, default)\<close>: a missing key reads as \<open>None\<close>.\<close>

definition dict_get :: "pydict \<Rightarrow> string \<Rightarrow> json" where
  "dict_get d k = (case map_of d k of None \<Rightarrow> JNull | Some v \<Rightarrow> v)"

definition dict_get_default :: "pydict \<Rightarrow> string \<Rightarrow> json \<Rightarrow> json" where
  "dict_get_default d k dflt = (case map_of d k of None \<Rightarrow> dflt | Some v \<Rightarrow> v)"

text \<open>
  \<open>isinstance(x, int)\<close> holds for \<open>int\<close> and for \<open>bool\<close>, its subclass; in comparisons
  \<open>True\<close> counts as 1 and \<open>False\<close> as 0.
\<close>

fun int_value :: "json \<Rightarrow> int option" where
  "int_value (JInt i) = Some i"
| "int_value (JBool b) = Some (if b then 1 else 0)"
| "int_value _ = None"

text \<open>\<open>str.isspace\<close> on the code points below 256, and \<open>str.strip()\<close>.\<close>

definition py_isspace :: "char \<Rightarrow> bool" where
  "py_isspace c =
     (let n = (of_char c :: nat)
      in (9 \<le> n \<and> n \<le> 13) \<or> (28 \<le> n \<and> n \<le> 32) \<or> n = 133 \<or> n = 160)"

definition strip :: "string \<Rightarrow> string" where
  "strip s = rev (dropWhile py_isspace (rev (dropWhile py_isspace s)))"

text \<open>\<open>str(n)\<close> for integers.\<close>

definition digit_char :: "nat \<Rightarrow> char" where
  "digit_char n = ''0123456789'' ! n"

function str_nat :: "nat \<Rightarrow> string" where
  "str_nat n = (if n < 10 then [digit_char n] else str_nat (n div 10) @ [digit_char (n mod 10)])"
  by pat_completeness auto
termination
  by (relation "measure id") auto

definition str_int :: "int \<Rightarrow> string" where
  "str_int i = (if i < 0 then CHR ''-'' # str_nat (nat (- i)) else str_nat (nat i))"

section \<open>Parameter validation (api.py and server.py, the same text in both)\<close>

definition MAX_COMMAND_LENGTH :: nat where "MAX_COMMAND_LENGTH = 8192"
definition MAX_HOST_LENGTH :: nat where "MAX_HOST_LENGTH = 253"
definition MAX_USER_LENGTH :: nat where "MAX_USER_LENGTH = 32"
definition MIN_TIMEOUT :: int where "MIN_TIMEOUT = 1"
definition MAX_TIMEOUT :: int where "MAX_TIMEOUT = 3600"
definition MAX_SSH_DIR_LENGTH :: nat where "MAX_SSH_DIR_LENGTH = 4096"

text \<open>The loop over \<open>extra_opts\<close>: the first item that is no string of at most 256
  characters ends the validation.\<close>

fun check_extra_opts :: "json list \<Rightarrow> string option" where
  "check_extra_opts [] = None"
| "check_extra_opts (opt # opts) =
     (if (case opt of JStr s \<Rightarrow> length s > 256 | _ \<Rightarrow> True)
      then Some ''Each extra_opts item must be a string with maximum 256 characters''
      else check_extra_opts opts)"

definition validate_ssh_parameters :: "pydict \<Rightarrow> string option" where
  "validate_ssh_parameters data =
    (if \<not> truthy (dict_get data ''host'') then
       Some ''Missing required parameter: host''
     else if \<not> truthy (dict_get data ''command'') then
       Some ''Missing required parameter: command''
     else let host = dict_get data ''host'' in
     if (case host of JStr s \<Rightarrow> length (strip s) = 0 | _ \<Rightarrow> True) then
       Some ''Host must be a non-empty string''
     else if (case host of JStr s \<Rightarrow> length s > MAX_HOST_LENGTH | _ \<Rightarrow> False) then
       Some (''Host length exceeds maximum of '' @ str_nat MAX_HOST_LENGTH @ '' characters'')
     else let command = dict_get data ''command'' in
     if (case command of JStr s \<Rightarrow> length (strip s) = 0 | _ \<Rightarrow> True) then
       Some ''Command must be a non-empty string''
     else if (case command of JStr s \<Rightarrow> length s > MAX_COMMAND_LENGTH | _ \<Rightarrow> False) then
       Some (''Command length exceeds maximum of '' @ str_nat MAX_COMMAND_LENGTH @ '' characters'')
     else let user = dict_get data ''user'' in
     if user \<noteq> JNull \<and> (case user of JStr s \<Rightarrow> length s > MAX_USER_LENGTH | _ \<Rightarrow> True) then
       Some (''User must be a string with maximum '' @ str_nat MAX_USER_LENGTH @ '' characters'')
     else let port = dict_get data ''port'' in
     if port \<noteq> JNull \<and> (case int_value port of None \<Rightarrow> True | Some p \<Rightarrow> p < 1 \<or> p > 65535) then
       Some ''Port must be an integer between 1 and 65535''
     else let timeout = dict_get_default data ''timeout'' (JInt 60) in
     if (case int_value timeout of None \<Rightarrow> True | Some t \<Rightarrow> t < MIN_TIMEOUT \<or> t > MAX_TIMEOUT) then
       Some (''Timeout must be an integer between '' @ str_int MIN_TIMEOUT @ '' and ''
             @ str_int MAX_TIMEOUT @ '' seconds'')
     else let ssh_dir = dict_get data ''ssh_dir'' in
     if ssh_dir \<noteq> JNull \<and> (case ssh_dir of JStr s \<Rightarrow> length s > MAX_SSH_DIR_LENGTH | _ \<Rightarrow> True) then
       Some (''SSH directory path must be a string with maximum '' @ str_nat MAX_SSH_DIR_LENGTH
             @ '' characters'')
     else let strict_host_key_checking = dict_get data ''strict_host_key_checking'' in
     if strict_host_key_checking \<noteq> JNull
        \<and> strict_host_key_checking \<notin> set [JStr ''yes'', JStr ''no'', JStr ''accept-new''] then
       Some ''strict_host_key_checking must be one of: yes, no, accept-new''
     else let proxy_jump = dict_get data ''proxy_jump'' in
     if proxy_jump \<noteq> JNull \<and> (case proxy_jump of JStr s \<Rightarrow> length s > MAX_HOST_LENGTH | _ \<Rightarrow> True) then
       Some (''Proxy jump must be a string with maximum '' @ str_nat MAX_HOST_LENGTH @ '' characters'')
     else let allocate_tty = dict_get data ''allocate_tty'' in
     if allocate_tty \<noteq> JNull \<and> (case allocate_tty of JBool b \<Rightarrow> False | _ \<Rightarrow> True) then
       Some ''allocate_tty must be a boolean''
     else let extra_opts = dict_get data ''extra_opts'' in
     if extra_opts \<noteq> JNull then
       (case extra_opts of
          JList opts \<Rightarrow> check_extra_opts opts
        | _ \<Rightarrow> Some ''extra_opts must be an array'')
     else None)"

section \<open>The operating system, as the code observes it\<close>

text \<open>
  Exceptions that can cross the functions modelled here. Every constructor carries the
  text that \<open>str(e)\<close> yields where the code formats it.
\<close>

datatype py_exc =
    ValueError string
  | KeyError string
  | AttributeError string
  | TypeError string
  | OSError string
  | UnicodeDecodeError string
  | UnicodeEncodeError string
  | RecursionError string
  | TimeoutExpired
  | CalledProcessError int string

text \<open>
  What \<open>subprocess.Popen\<close> followed by \<open>proc.communicate(timeout=...)\<close> can do:
  the spawn raises (the client binary is missing or cannot be executed), the wait runs
  into the timeout, decoding the captured output as text raises, or the child exits with
  a return code and its two captured streams.
\<close>

datatype proc_outcome =
    SpawnFails string
  | TimesOut
  | DecodeFails string
  | Completed int string string

text \<open>
  What \<open>json.loads\<close> can do with a line: return the parsed value, raise
  \<open>JSONDecodeError\<close>, or raise another exception (\<open>RecursionError\<close> on deep
  nesting, \<open>ValueError\<close> on an integer literal beyond the digit limit).
\<close>

datatype loads_outcome =
    Loaded json
  | DecodeError
  | LoadsRaises py_exc

text \<open>
  The environment is a parameter of every function that reads it: the home directory of
  the current user (\<open>HOME\<close>, else the password database; \<open>None\<close> when neither
  knows it), the password database for \<open>~user\<close>, the three file-system tests, the
  \<open>SSH_DIR\<close> variable, the behaviour of the child process for an argument vector and a
  timeout, and the two readings of \<open>time.time()\<close> around it. Four library functions
  are parameters as well: \<open>json.loads\<close>, \<open>str()\<close> of a value that is no string,
  \<open>str()\<close> of a float, and \<open>print\<close> of a serialised response, which returns or
  raises (\<open>UnicodeEncodeError\<close> when the text cannot be encoded for standard output).
\<close>

record os_world =
  home_dir :: "string option"
  pw_dir :: "string \<Rightarrow> string option"
  isdir :: "string \<Rightarrow> bool"
  path_exists :: "string \<Rightarrow> bool"
  access_r :: "string \<Rightarrow> bool"
  environ_SSH_DIR :: "string option"
  run_child :: "string list \<Rightarrow> int \<Rightarrow> proc_outcome"
  time_start :: rat
  time_end :: rat
  json_loads :: "string \<Rightarrow> loads_outcome"
  str_other :: "json \<Rightarrow> string"
  str_float :: "rat \<Rightarrow> string"
  print_raises :: "pydict \<Rightarrow> py_exc option"

text \<open>\<open>os.path.expanduser\<close> and \<open>os.path.join\<close> of the POSIX path module.\<close>

definition rstrip_slash :: "string \<Rightarrow> string" where
  "rstrip_slash s = rev (dropWhile (\<lambda>c. c = CHR ''/'') (rev s))"

definition expanduser :: "os_world \<Rightarrow> string \<Rightarrow> string" where
  "expanduser w path =
     (if \<not> prefix ''~'' path then path
      else
        let name = tl (takeWhile (\<lambda>c. c \<noteq> CHR ''/'') path);
            rest = dropWhile (\<lambda>c. c \<noteq> CHR ''/'') path;
            userhome = (if name = [] then home_dir w else pw_dir w name)
        in case userhome of
             None \<Rightarrow> path
           | Some h \<Rightarrow> (if rstrip_slash h @ rest = [] then ''/'' else rstrip_slash h @ rest))"

definition path_join :: "string \<Rightarrow> string \<Rightarrow> string" where
  "path_join a b =
     (if prefix ''/'' b then b
      else if a = [] \<or> last a = CHR ''/'' then a @ b
      else a @ ''/'' @ b)"

text \<open>\<open>round(x, 3)\<close>: to the nearest multiple of 1/1000, ties to the even one.\<close>

definition round_half_even :: "rat \<Rightarrow> int" where
  "round_half_even y =
     (let f = \<lfloor>y\<rfloor>; r = y - of_int f
      in if r < 1 / 2 then f
         else if r > 1 / 2 then f + 1
         else if even f then f else f + 1)"

definition round3 :: "rat \<Rightarrow> rat" where
  "round3 x = of_int (round_half_even (x * 1000)) / 1000"

section \<open>The command invoker (exec_ssh.py)\<close>

definition EPHEMERAL_DEFAULTS :: "string list" where
  "EPHEMERAL_DEFAULTS =
     [''-o'', ''BatchMode=yes'',
      ''-o'', ''UserKnownHostsFile=/dev/null'',
      ''-o'', ''StrictHostKeyChecking=no'',
      ''-o'', ''CheckHostIP=no'',
      ''-o'', ''LogLevel=ERROR'']"

text \<open>
  The keyword arguments of \<open>exec_ssh\<close>, typed as a validated request supplies them.
  \<open>port\<close> is an \<open>int\<close> or, since \<open>bool\<close> passes \<open>isinstance(port, int)\<close>, a
  \<open>bool\<close>; \<open>timeout\<close> arrives through \<open>int(...)\<close>.
\<close>

datatype pyint = PyInt int | PyBool bool

fun pyint_truthy :: "pyint \<Rightarrow> bool" where
  "pyint_truthy (PyInt i) = (i \<noteq> 0)"
| "pyint_truthy (PyBool b) = b"

fun pyint_str :: "pyint \<Rightarrow> string" where
  "pyint_str (PyInt i) = str_int i"
| "pyint_str (PyBool b) = (if b then ''True'' else ''False'')"

record ssh_args =
  host :: string
  command :: string
  user :: "string option"
  port :: "pyint option"
  ssh_dir :: "string option"
  strict_host_key_checking :: "string option"
  proxy_jump :: "string option"
  allocate_tty :: bool
  extra_opts :: "string list option"
  timeout :: int

record ssh_result =
  exit_code :: int
  stdout :: string
  stderr :: string
  duration_seconds :: rat

text \<open>Truthiness of an optional string: \<open>None\<close> and the empty string are false.\<close>

fun str_truthy :: "string option \<Rightarrow> bool" where
  "str_truthy None = False"
| "str_truthy (Some s) = (s \<noteq> [])"

text \<open>The options accumulated in \<open>opts\<close>, in the order of the source.\<close>

definition ssh_opts :: "os_world \<Rightarrow> ssh_args \<Rightarrow> string list" where
  "ssh_opts w a =
     EPHEMERAL_DEFAULTS
     @ (case port a of
          Some p \<Rightarrow> (if pyint_truthy p then [''-p'', pyint_str p] else [])
        | None \<Rightarrow> [])
     @ (if str_truthy (ssh_dir a) then
          (let d = expanduser w (the (ssh_dir a)) in
           if isdir w d then
             (let cfg = path_join d ''config'' in
              if path_exists w cfg then [''-F'', cfg] else [])
           else [])
        else [])
     @ (if str_truthy (strict_host_key_checking a)
        then [''-o'', ''StrictHostKeyChecking='' @ the (strict_host_key_checking a)] else [])
     @ (if str_truthy (proxy_jump a) then [''-J'', the (proxy_jump a)] else [])
     @ (if allocate_tty a then [''-t''] else [])
     @ (case extra_opts a of
          Some xs \<Rightarrow> (if xs \<noteq> [] then xs else [])
        | None \<Rightarrow> [])"

definition ssh_target :: "ssh_args \<Rightarrow> string" where
  "ssh_target a =
     (if str_truthy (user a) then the (user a) @ ''@'' @ host a else host a)"

definition ssh_argv :: "os_world \<Rightarrow> ssh_args \<Rightarrow> string list" where
  "ssh_argv w a = [''ssh''] @ ssh_opts w a @ [ssh_target a, ''--'', command a]"

text \<open>
  \<open>exec_ssh\<close> returns its dictionary or lets an exception through, and calls
  \<open>Popen\<close> once; the second component lists the argument vectors handed to
  \<open>Popen\<close>. Only \<open>TimeoutExpired\<close> is caught, and only around \<open>communicate\<close>.
\<close>

definition exec_ssh :: "os_world \<Rightarrow> ssh_args \<Rightarrow> (py_exc + ssh_result) \<times> string list list" where
  "exec_ssh w a =
     (let argv = ssh_argv w a;
          elapsed = round3 (time_end w - time_start w)
      in case run_child w argv (timeout a) of
           SpawnFails msg \<Rightarrow> (Inl (OSError msg), [argv])
         | TimesOut \<Rightarrow>
             (Inr \<lparr>exit_code = 124, stdout = [], stderr = ''timeout'',
                    duration_seconds = elapsed\<rparr>, [argv])
         | DecodeFails msg \<Rightarrow> (Inl (UnicodeDecodeError msg), [argv])
         | Completed rc out err \<Rightarrow>
             (Inr \<lparr>exit_code = rc, stdout = out, stderr = err,
                    duration_seconds = elapsed\<rparr>, [argv]))"

section \<open>Validation of the ssh directory (api.py and server.py, the same text in both)\<close>

definition allowed_prefixes :: "os_world \<Rightarrow> string list" where
  "allowed_prefixes w = [''/home/'', ''/Users/'', expanduser w ''~'']"

definition validate_ssh_directory :: "os_world \<Rightarrow> string \<Rightarrow> string option" where
  "validate_ssh_directory w dir =
     (if dir = [] then None
      else
        let expanded_path = expanduser w dir in
        if (sublist ''..'' dir \<or> prefix ''/'' dir)
           \<and> \<not> list_ex (\<lambda>p. prefix p expanded_path) (allowed_prefixes w)
        then Some ''SSH directory path not allowed''
        else if \<not> isdir w expanded_path then
          Some (''SSH directory does not exist: '' @ expanded_path)
        else if \<not> access_r w expanded_path then
          Some (''SSH directory is not readable: '' @ expanded_path)
        else None)"

section \<open>From a validated dictionary to the call of exec_ssh\<close>

text \<open>
  Both adapters call \<open>exec_ssh\<close> with the same keyword arguments, read from the
  dictionary that passed \<open>validate_ssh_parameters\<close>, and with the \<open>ssh_dir\<close> they
  resolved. The readers below return \<open>None\<close> for a value of a type that validation
  excludes.
\<close>

fun as_str :: "json \<Rightarrow> string option" where
  "as_str (JStr s) = Some s"
| "as_str _ = None"

fun as_opt_str :: "json \<Rightarrow> string option option" where
  "as_opt_str JNull = Some None"
| "as_opt_str (JStr s) = Some (Some s)"
| "as_opt_str _ = None"

fun as_opt_pyint :: "json \<Rightarrow> pyint option option" where
  "as_opt_pyint JNull = Some None"
| "as_opt_pyint (JInt i) = Some (Some (PyInt i))"
| "as_opt_pyint (JBool b) = Some (Some (PyBool b))"
| "as_opt_pyint _ = None"

fun as_strs :: "json list \<Rightarrow> string list option" where
  "as_strs [] = Some []"
| "as_strs (x # xs) =
     (case (as_str x, as_strs xs) of
        (Some s, Some ss) \<Rightarrow> Some (s # ss)
      | _ \<Rightarrow> None)"

fun as_opt_strs :: "json \<Rightarrow> string list option option" where
  "as_opt_strs JNull = Some None"
| "as_opt_strs (JList xs) = map_option Some (as_strs xs)"
| "as_opt_strs _ = None"

definition call_args :: "pydict \<Rightarrow> string option \<Rightarrow> ssh_args option" where
  "call_args d sdir =
     (case (as_str (dict_get d ''host''), as_str (dict_get d ''command''),
            as_opt_str (dict_get d ''user''), as_opt_pyint (dict_get d ''port''),
            as_opt_str (dict_get d ''strict_host_key_checking''),
            as_opt_str (dict_get d ''proxy_jump''),
            as_opt_strs (dict_get d ''extra_opts''),
            int_value (dict_get_default d ''timeout'' (JInt 60))) of
        (Some h, Some c, Some u, Some p, Some k, Some j, Some x, Some t) \<Rightarrow>
          Some \<lparr>host = h, command = c, user = u, port = p, ssh_dir = sdir,
                strict_host_key_checking = k, proxy_jump = j,
                allocate_tty = truthy (dict_get d ''allocate_tty''),
                extra_opts = x, timeout = t\<rparr>
      | _ \<Rightarrow> None)"

text \<open>
  The block both adapters run on the resolved \<open>ssh_dir\<close>: a truthy value is checked by
  \<open>validate_ssh_directory\<close> and then expanded, a falsy one is passed on as it is.
\<close>

definition checked_ssh_dir :: "os_world \<Rightarrow> string option \<Rightarrow> string + string option" where
  "checked_ssh_dir w sd =
     (if str_truthy sd then
        (let ssh_dir_error = validate_ssh_directory w (the sd) in
         if str_truthy ssh_dir_error then Inl (the ssh_dir_error)
         else Inr (Some (expanduser w (the sd))))
      else Inr sd)"

text \<open>\<open>str(e)\<close>, and the \<open>AttributeError\<close> of calling \<open>.get\<close> on a value that is no
  dictionary.\<close>

fun exc_str :: "py_exc \<Rightarrow> string" where
  "exc_str (ValueError m) = m"
| "exc_str (KeyError m) = m"
| "exc_str (AttributeError m) = m"
| "exc_str (TypeError m) = m"
| "exc_str (OSError m) = m"
| "exc_str (UnicodeDecodeError m) = m"
| "exc_str (UnicodeEncodeError m) = m"
| "exc_str (RecursionError m) = m"
| "exc_str TimeoutExpired = ''Command timed out''"
| "exc_str (CalledProcessError rc m) = m"

fun type_name :: "json \<Rightarrow> string" where
  "type_name JNull = ''NoneType''"
| "type_name (JBool b) = ''bool''"
| "type_name (JInt i) = ''int''"
| "type_name (JFloat f) = ''float''"
| "type_name (JStr s) = ''str''"
| "type_name (JList xs) = ''list''"
| "type_name (JDict kvs) = ''dict''"

definition no_get :: "json \<Rightarrow> py_exc" where
  "no_get j = AttributeError ([CHR 0x27] @ type_name j @ [CHR 0x27]
                @ '' object has no attribute '' @ [CHR 0x27] @ ''get'' @ [CHR 0x27])"

section \<open>The HTTP adapter (api.py)\<close>

text \<open>
  Of a request the handler reads the two authentication results (the payload that
  \<open>verify_jwt\<close> returns, if any, and the answer of \<open>verify_api_key\<close>),
  \<open>request.is_json\<close> and \<open>request.get_json()\<close>, which raises or returns the parsed
  body. The response is a status and a JSON body; an exception that leaves \<open>run_cmd\<close>
  is left to the framework. The size check of \<open>before_request\<close> and the headers of
  \<open>after_request\<close> lie outside \<open>run_cmd\<close>. A branch that ends in \<open>TypeError\<close>
  stands for a value that the typed arguments of \<open>exec_ssh\<close> cannot hold; validation
  excludes it.
\<close>

record http_request =
  auth_jwt :: "pydict option"
  auth_key :: bool
  is_json :: bool
  get_json :: "py_exc + json"

type_synonym http_response = "nat \<times> json"

definition error_response :: "string \<Rightarrow> nat \<Rightarrow> http_response" where
  "error_response message status_code = (status_code, JDict [(''error'', JStr message)])"

definition jsonify_result :: "ssh_result \<Rightarrow> json" where
  "jsonify_result res =
     JDict [(''exit_code'', JInt (exit_code res)), (''stdout'', JStr (stdout res)),
            (''stderr'', JStr (stderr res)),
            (''duration_seconds'', JFloat (Finite (duration_seconds res)))]"

definition run_cmd ::
  "os_world \<Rightarrow> string \<Rightarrow> http_request \<Rightarrow> (py_exc + http_response) \<times> string list list" where
  "run_cmd w SSH_DIR rq =
     (if \<not> ((case auth_jwt rq of None \<Rightarrow> False | Some payload \<Rightarrow> payload \<noteq> []) \<or> auth_key rq)
      then (Inr (error_response ''unauthorized'' 401), [])
      else if \<not> is_json rq then
        (Inr (error_response ''Content-Type must be application/json'' 400), [])
      else case get_json rq of
        Inl e \<Rightarrow> (Inr (error_response ''Invalid JSON format'' 400), [])
      | Inr JNull \<Rightarrow> (Inr (error_response ''Invalid JSON in request body'' 400), [])
      | Inr (JDict data) \<Rightarrow>
          (let validation_error = validate_ssh_parameters data in
           if str_truthy validation_error then
             (Inr (error_response (the validation_error) 400), [])
           else case as_opt_str (dict_get_default data ''ssh_dir'' (JStr SSH_DIR)) of
             None \<Rightarrow> (Inl (TypeError ''ssh_dir''), [])
           | Some sd \<Rightarrow>
               (case checked_ssh_dir w sd of
                  Inl ssh_dir_error \<Rightarrow> (Inr (error_response ssh_dir_error 400), [])
                | Inr sdir \<Rightarrow>
                    (case call_args data sdir of
                       None \<Rightarrow> (Inl (TypeError ''exec_ssh''), [])
                     | Some a \<Rightarrow>
                         (case exec_ssh w a of
                            (Inr res, spawned) \<Rightarrow> (Inr (200, jsonify_result res), spawned)
                          | (Inl TimeoutExpired, spawned) \<Rightarrow>
                              (Inr (error_response ''SSH command timed out'' 504), spawned)
                          | (Inl (CalledProcessError rc m), spawned) \<Rightarrow>
                              (Inr (error_response (''SSH execution failed: '' @ m) 500), spawned)
                          | (Inl e, spawned) \<Rightarrow>
                              (Inr (error_response (''Internal server error: '' @ exc_str e) 500),
                               spawned)))))
      | Inr other \<Rightarrow> (Inl (no_get other), []))"

section \<open>The JSON-RPC adapter (server.py)\<close>

definition JSONRPC :: string where "JSONRPC = ''2.0''"

definition INVALID_PARAMS :: int where "INVALID_PARAMS = - 32602"
definition INTERNAL_ERROR :: int where "INTERNAL_ERROR = - 32603"
definition PARSE_ERROR :: int where "PARSE_ERROR = - 32700"
definition INVALID_REQUEST :: int where "INVALID_REQUEST = - 32600"
definition METHOD_NOT_FOUND :: int where "METHOD_NOT_FOUND = - 32601"
definition SSH_CONNECTION_ERROR :: int where "SSH_CONNECTION_ERROR = - 32001"
definition SSH_TIMEOUT_ERROR :: int where "SSH_TIMEOUT_ERROR = - 32002"
definition SSH_VALIDATION_ERROR :: int where "SSH_VALIDATION_ERROR = - 32003"
definition SSH_DIRECTORY_ERROR :: int where "SSH_DIRECTORY_ERROR = - 32004"

text \<open>\<open>jr\<close> with a result, \<open>jr\<close> with an error, and \<open>jerr\<close>.\<close>

definition jr_result :: "json \<Rightarrow> json \<Rightarrow> pydict" where
  "jr_result rid result = [(''jsonrpc'', JStr JSONRPC), (''id'', rid), (''result'', result)]"

definition jr_error :: "json \<Rightarrow> json \<Rightarrow> pydict" where
  "jr_error rid error = [(''jsonrpc'', JStr JSONRPC), (''id'', rid), (''error'', error)]"

definition jerr :: "json \<Rightarrow> int \<Rightarrow> string \<Rightarrow> pydict \<Rightarrow> pydict" where
  "jerr rid code message data =
     jr_error rid
       (JDict ([(''code'', JInt code), (''message'', JStr message)]
               @ (if data \<noteq> [] then [(''data'', JDict data)] else [])))"

definition mcp_initialize :: "json \<Rightarrow> json" where
  "mcp_initialize params =
     JDict [(''protocolVersion'', JStr ''2024-11-05''),
            (''capabilities'', JDict [(''tools'', JDict [(''listChanged'', JBool False)])]),
            (''serverInfo'', JDict [(''name'', JStr ''ssh-api-mcp''),
                                    (''version'', JStr ''1.0.0'')])]"

definition SSH_RUN_INPUT_SCHEMA :: json where
  "SSH_RUN_INPUT_SCHEMA =
     JDict [(''type'', JStr ''object''),
            (''required'', JList [JStr ''host'', JStr ''command'']),
            (''properties'', JDict [
               (''host'', JDict [(''type'', JStr ''string''),
                                 (''description'', JStr ''SSH host or alias'')]),
               (''command'', JDict [(''type'', JStr ''string''),
                                    (''description'', JStr ''Non-interactive command to run'')]),
               (''user'', JDict [(''type'', JStr ''string'')]),
               (''port'', JDict [(''type'', JStr ''integer'')]),
               (''ssh_dir'', JDict [(''type'', JStr ''string''),
                                    (''description'', JStr ''Path to ~/.ssh (optional)'')]),
               (''timeout'', JDict [(''type'', JStr ''integer''), (''default'', JInt 60)]),
               (''strict_host_key_checking'',
                  JDict [(''type'', JStr ''string''),
                         (''enum'', JList [JStr ''yes'', JStr ''no'', JStr ''accept-new''])]),
               (''proxy_jump'', JDict [(''type'', JStr ''string''),
                                       (''description'', JStr ''ProxyJump/-J host'')]),
               (''allocate_tty'', JDict [(''type'', JStr ''boolean'')]),
               (''extra_opts'',
                  JDict [(''type'', JStr ''array''),
                         (''items'', JDict [(''type'', JStr ''string'')]),
                         (''description'', JStr ''Raw ssh(1) flags, each item is one token'')])])]"

definition mcp_tools_list :: "json \<Rightarrow> json" where
  "mcp_tools_list params =
     JDict [(''tools'', JList [JDict [
        (''name'', JStr ''ssh''),
        (''description'',
           JStr ''Execute a non-interactive SSH command and return stdout/stderr/exit_code.''),
        (''inputSchema'', SSH_RUN_INPUT_SCHEMA)]])]"

text \<open>A value inside an f-string: a string stands for itself.\<close>

definition fmt :: "os_world \<Rightarrow> json \<Rightarrow> string" where
  "fmt w j = (case j of JStr s \<Rightarrow> s | _ \<Rightarrow> str_other w j)"

definition result_text :: "os_world \<Rightarrow> string \<Rightarrow> ssh_result \<Rightarrow> string" where
  "result_text w h res =
     ''SSH command completed on '' @ h @ '':'' @ [CHR 0x0A]
     @ ''Exit code: '' @ str_int (exit_code res) @ [CHR 0x0A]
     @ ''Duration: '' @ str_float w (duration_seconds res) @ ''s'' @ [CHR 0x0A]
     @ ''Stdout: '' @ stdout res @ [CHR 0x0A]
     @ ''Stderr: '' @ stderr res"

definition mcp_tools_call :: "os_world \<Rightarrow> json \<Rightarrow> (py_exc + json) \<times> string list list" where
  "mcp_tools_call w params =
     (case params of
        JDict p \<Rightarrow>
          (let name = dict_get p ''name'';
               arguments = (if truthy (dict_get p ''arguments'') then dict_get p ''arguments''
                            else JDict [])
           in if name \<noteq> JStr ''ssh'' then
                (Inl (ValueError (''Unknown tool: '' @ fmt w name)), [])
              else case arguments of
                JDict args \<Rightarrow>
                  (let validation_error = validate_ssh_parameters args in
                   if str_truthy validation_error then
                     (Inl (ValueError (''Invalid parameters: '' @ the validation_error)), [])
                   else case (if truthy (dict_get args ''ssh_dir'')
                              then as_opt_str (dict_get args ''ssh_dir'')
                              else Some (Some (case environ_SSH_DIR w of
                                                 None \<Rightarrow> [] | Some s \<Rightarrow> s))) of
                     None \<Rightarrow> (Inl (TypeError ''ssh_dir''), [])
                   | Some sd \<Rightarrow>
                       (case checked_ssh_dir w sd of
                          Inl ssh_dir_error \<Rightarrow>
                            (Inl (ValueError (''SSH directory error: '' @ ssh_dir_error)), [])
                        | Inr sdir \<Rightarrow>
                            (case call_args args sdir of
                               None \<Rightarrow> (Inl (TypeError ''exec_ssh''), [])
                             | Some a \<Rightarrow>
                                 (case exec_ssh w a of
                                    (Inl e, spawned) \<Rightarrow> (Inl e, spawned)
                                  | (Inr res, spawned) \<Rightarrow>
                                      (Inr (JDict [
                                         (''content'', JList [JDict [
                                            (''type'', JStr ''text''),
                                            (''text'', JStr (result_text w (host a) res))]]),
                                         (''isError'', JBool (exit_code res \<noteq> 0))]),
                                       spawned)))))
              | other \<Rightarrow> (Inl (no_get other), []))
      | other \<Rightarrow> (Inl (no_get other), []))"

text \<open>The \<open>except\<close> clauses of \<open>handle\<close>, in their order; \<open>UnicodeDecodeError\<close> and
  \<open>UnicodeEncodeError\<close> are subclasses of \<open>ValueError\<close>.\<close>

definition value_error_response :: "json \<Rightarrow> string \<Rightarrow> pydict" where
  "value_error_response rid error_msg =
     (if sublist ''Invalid parameters:'' error_msg then
        jerr rid SSH_VALIDATION_ERROR error_msg []
      else if sublist ''SSH directory error:'' error_msg then
        jerr rid SSH_DIRECTORY_ERROR error_msg []
      else jerr rid INVALID_PARAMS error_msg [])"

fun exception_response :: "json \<Rightarrow> py_exc \<Rightarrow> pydict" where
  "exception_response rid (ValueError m) = value_error_response rid m"
| "exception_response rid (UnicodeDecodeError m) = value_error_response rid m"
| "exception_response rid (UnicodeEncodeError m) = value_error_response rid m"
| "exception_response rid (KeyError m) =
     jerr rid INVALID_PARAMS (''Missing required parameter: '' @ m) []"
| "exception_response rid TimeoutExpired =
     jerr rid SSH_TIMEOUT_ERROR ''SSH command timed out'' []"
| "exception_response rid (CalledProcessError rc m) =
     jerr rid SSH_CONNECTION_ERROR (''SSH command failed: '' @ m) [(''exit_code'', JInt rc)]"
| "exception_response rid e =
     jerr rid INTERNAL_ERROR (''Internal server error: '' @ exc_str e) []"

definition handle :: "os_world \<Rightarrow> json \<Rightarrow> pydict \<times> string list list" where
  "handle w req =
     (case req of
        JDict r \<Rightarrow>
          (if dict_get r ''jsonrpc'' \<noteq> JStr JSONRPC then
             (let req_id = (if dict_get r ''id'' = JNull then JInt 0 else dict_get r ''id'')
              in (jerr req_id INVALID_REQUEST ''Invalid Request'' [], []))
           else
             let method = dict_get r ''method'';
                 rid = (if dict_get r ''id'' = JNull then JInt 0 else dict_get r ''id'');
                 params = (if truthy (dict_get r ''params'') then dict_get r ''params''
                           else JDict [])
             in if method = JStr ''initialize'' then (jr_result rid (mcp_initialize params), [])
                else if method = JStr ''tools/list'' then
                  (jr_result rid (mcp_tools_list params), [])
                else if method = JStr ''tools/call'' then
                  (case mcp_tools_call w params of
                     (Inr result, spawned) \<Rightarrow> (jr_result rid result, spawned)
                   | (Inl e, spawned) \<Rightarrow> (exception_response rid e, spawned))
                else (jerr rid METHOD_NOT_FOUND (''Method not found: '' @ fmt w method) [], []))
      | other \<Rightarrow> (jerr (JInt 0) INVALID_REQUEST ''Invalid Request'' [], []))"

text \<open>
  One turn of the loop of \<open>main\<close> on a line of standard input: the line is skipped,
  or a response is printed, or an exception leaves the loop and ends the process. Only
  \<open>JSONDecodeError\<close> is caught around \<open>json.loads\<close>, and nothing is caught around
  \<open>print\<close>. The second component lists the argument vectors spawned. \<open>main\<close> runs the
  lines in order and stops at the first exception; it returns the responses printed, the
  argument vectors spawned and the exception that ended it, if any.
\<close>

datatype line_outcome = Skipped | Answered pydict | Died py_exc

definition parse_error_response :: pydict where
  "parse_error_response =
     [(''jsonrpc'', JStr JSONRPC),
      (''error'', JDict [(''code'', JInt PARSE_ERROR),
                         (''message'', JStr ''Parse error: Invalid JSON'')])]"

definition print_response :: "os_world \<Rightarrow> pydict \<Rightarrow> line_outcome" where
  "print_response w resp =
     (case print_raises w resp of None \<Rightarrow> Answered resp | Some e \<Rightarrow> Died e)"

definition main_line :: "os_world \<Rightarrow> string \<Rightarrow> line_outcome \<times> string list list" where
  "main_line w line0 =
     (let line = strip line0 in
      if line = [] then (Skipped, [])
      else case json_loads w line of
        DecodeError \<Rightarrow> (print_response w parse_error_response, [])
      | LoadsRaises e \<Rightarrow> (Died e, [])
      | Loaded req \<Rightarrow> (case handle w req of (resp, spawned) \<Rightarrow> (print_response w resp, spawned)))"

fun main :: "os_world \<Rightarrow> string list \<Rightarrow> pydict list \<times> string list list \<times> py_exc option" where
  "main w [] = ([], [], None)"
| "main w (line # rest) =
     (case main_line w line of
        (Died e, s1) \<Rightarrow> ([], s1, Some e)
      | (Skipped, s1) \<Rightarrow> (case main w rest of (out, s2, ex) \<Rightarrow> (out, s1 @ s2, ex))
      | (Answered resp, s1) \<Rightarrow>
          (case main w rest of (out, s2, ex) \<Rightarrow> (resp # out, s1 @ s2, ex)))"

section \<open>The validation order as a list of constraints\<close>

text \<open>
  The constraints of the validator in the order the specification gives them, each as a
  predicate on the input map together with the message reported when it is the first one
  violated. A required field counts as present when the map holds a truthy value for it;
  a length bound holds for a value that is no string (the type constraint before it
  reports that case). For \<open>port\<close> and \<open>timeout\<close> the specification and the input
  schema of the tool ask for an integer: \<open>port_ok\<close> and \<open>timeout_ok\<close> hold for a JSON
  integer in range and for no other value. \<open>port_accepted\<close> and \<open>timeout_accepted\<close>
  are the tests the code performs, where \<open>isinstance(x, int)\<close> lets a boolean pass.
\<close>

definition has_host :: "pydict \<Rightarrow> bool" where
  "has_host d = truthy (dict_get d ''host'')"
definition has_command :: "pydict \<Rightarrow> bool" where
  "has_command d = truthy (dict_get d ''command'')"
definition host_is_nonblank_string :: "pydict \<Rightarrow> bool" where
  "host_is_nonblank_string d = (case dict_get d ''host'' of JStr s \<Rightarrow> strip s \<noteq> [] | _ \<Rightarrow> False)"
definition host_length_ok :: "pydict \<Rightarrow> bool" where
  "host_length_ok d = (case dict_get d ''host'' of JStr s \<Rightarrow> length s \<le> 253 | _ \<Rightarrow> True)"
definition command_is_nonblank_string :: "pydict \<Rightarrow> bool" where
  "command_is_nonblank_string d = (case dict_get d ''command'' of JStr s \<Rightarrow> strip s \<noteq> [] | _ \<Rightarrow> False)"
definition command_length_ok :: "pydict \<Rightarrow> bool" where
  "command_length_ok d = (case dict_get d ''command'' of JStr s \<Rightarrow> length s \<le> 8192 | _ \<Rightarrow> True)"
definition user_ok :: "pydict \<Rightarrow> bool" where
  "user_ok d = (case dict_get d ''user'' of JNull \<Rightarrow> True | JStr s \<Rightarrow> length s \<le> 32 | _ \<Rightarrow> False)"
definition port_ok :: "pydict \<Rightarrow> bool" where
  "port_ok d = (case dict_get d ''port'' of
                  JNull \<Rightarrow> True
                | JInt i \<Rightarrow> 1 \<le> i \<and> i \<le> 65535
                | _ \<Rightarrow> False)"
definition timeout_ok :: "pydict \<Rightarrow> bool" where
  "timeout_ok d = (case dict_get_default d ''timeout'' (JInt 60) of
                     JInt i \<Rightarrow> 1 \<le> i \<and> i \<le> 3600
                   | _ \<Rightarrow> False)"
definition port_accepted :: "pydict \<Rightarrow> bool" where
  "port_accepted d = (dict_get d ''port'' = JNull
                      \<or> (case int_value (dict_get d ''port'') of
                            Some p \<Rightarrow> 1 \<le> p \<and> p \<le> 65535
                          | None \<Rightarrow> False))"
definition timeout_accepted :: "pydict \<Rightarrow> bool" where
  "timeout_accepted d = (case int_value (dict_get_default d ''timeout'' (JInt 60)) of
                           Some t \<Rightarrow> 1 \<le> t \<and> t \<le> 3600
                         | None \<Rightarrow> False)"
definition ssh_dir_ok :: "pydict \<Rightarrow> bool" where
  "ssh_dir_ok d = (case dict_get d ''ssh_dir'' of JNull \<Rightarrow> True | JStr s \<Rightarrow> length s \<le> 4096 | _ \<Rightarrow> False)"
definition strict_host_key_checking_ok :: "pydict \<Rightarrow> bool" where
  "strict_host_key_checking_ok d =
     (dict_get d ''strict_host_key_checking'' \<in> set [JNull, JStr ''yes'', JStr ''no'', JStr ''accept-new''])"
definition proxy_jump_ok :: "pydict \<Rightarrow> bool" where
  "proxy_jump_ok d = (case dict_get d ''proxy_jump'' of JNull \<Rightarrow> True | JStr s \<Rightarrow> length s \<le> 253 | _ \<Rightarrow> False)"
definition allocate_tty_ok :: "pydict \<Rightarrow> bool" where
  "allocate_tty_ok d = (case dict_get d ''allocate_tty'' of JNull \<Rightarrow> True | JBool b \<Rightarrow> True | _ \<Rightarrow> False)"
definition extra_opts_is_array :: "pydict \<Rightarrow> bool" where
  "extra_opts_is_array d = (case dict_get d ''extra_opts'' of JNull \<Rightarrow> True | JList xs \<Rightarrow> True | _ \<Rightarrow> False)"
definition bounded_string :: "json \<Rightarrow> bool" where
  "bounded_string x = (case x of JStr s \<Rightarrow> length s \<le> 256 | _ \<Rightarrow> False)"
definition extra_opts_items_ok :: "pydict \<Rightarrow> bool" where
  "extra_opts_items_ok d = (case dict_get d ''extra_opts'' of JList xs \<Rightarrow> list_all bounded_string xs | _ \<Rightarrow> True)"

definition constraints_with ::
  "(pydict \<Rightarrow> bool) \<Rightarrow> (pydict \<Rightarrow> bool) \<Rightarrow> ((pydict \<Rightarrow> bool) \<times> string) list" where
  "constraints_with port_test timeout_test =
     [(has_host, ''Missing required parameter: host''),
      (has_command, ''Missing required parameter: command''),
      (host_is_nonblank_string, ''Host must be a non-empty string''),
      (host_length_ok, ''Host length exceeds maximum of 253 characters''),
      (command_is_nonblank_string, ''Command must be a non-empty string''),
      (command_length_ok, ''Command length exceeds maximum of 8192 characters''),
      (user_ok, ''User must be a string with maximum 32 characters''),
      (port_test, ''Port must be an integer between 1 and 65535''),
      (timeout_test, ''Timeout must be an integer between 1 and 3600 seconds''),
      (ssh_dir_ok, ''SSH directory path must be a string with maximum 4096 characters''),
      (strict_host_key_checking_ok, ''strict_host_key_checking must be one of: yes, no, accept-new''),
      (proxy_jump_ok, ''Proxy jump must be a string with maximum 253 characters''),
      (allocate_tty_ok, ''allocate_tty must be a boolean''),
      (extra_opts_is_array, ''extra_opts must be an array''),
      (extra_opts_items_ok, ''Each extra_opts item must be a string with maximum 256 characters'')]"

definition constraints :: "((pydict \<Rightarrow> bool) \<times> string) list" where
  "constraints = constraints_with port_ok timeout_ok"

definition code_checks :: "((pydict \<Rightarrow> bool) \<times> string) list" where
  "code_checks = constraints_with port_accepted timeout_accepted"

fun first_failure :: "((pydict \<Rightarrow> bool) \<times> string) list \<Rightarrow> pydict \<Rightarrow> string option" where
  "first_failure [] d = None"
| "first_failure ((ok, msg) # cs) d = (if ok d then first_failure cs d else Some msg)"

section \<open>The directory a path resolves to\<close>

text \<open>
  The specification asks that an \<open>ssh_dir\<close> with a parent-directory segment, or one
  that starts from the root, resolve under an allowed home directory. Resolving a path
  drops its empty and \<open>.\<close> segments and lets a \<open>..\<close> segment remove the segment before
  it; a path lies under a directory when the resolved segments of the directory begin
  the resolved segments of the path.
\<close>

fun split_path :: "string \<Rightarrow> string list" where
  "split_path [] = [[]]"
| "split_path (c # cs) =
     (if c = CHR ''/'' then [] # split_path cs
      else (case split_path cs of
              [] \<Rightarrow> [[c]]
            | s # ss \<Rightarrow> (c # s) # ss))"

fun resolve_segment :: "string \<Rightarrow> string list \<Rightarrow> string list" where
  "resolve_segment seg stack =
     (if seg = [] \<or> seg = ''.'' then stack
      else if seg = ''..'' then tl stack
      else seg # stack)"

definition resolved_segments :: "string \<Rightarrow> string list" where
  "resolved_segments p = rev (fold resolve_segment (split_path p) [])"

definition spec_resolves_under_allowed :: "os_world \<Rightarrow> string \<Rightarrow> bool" where
  "spec_resolves_under_allowed w dir =
     (prefix ''/'' (expanduser w dir)
      \<and> list_ex (\<lambda>allowed. prefix (resolved_segments allowed)
                               (resolved_segments (expanduser w dir)))
           (allowed_prefixes w))"

section \<open>The client's choice among repeated options\<close>

text \<open>
  The ssh client reads the options of its command line in order and uses, for each
  parameter, the first value it obtains; a later \<open>-o\<close> for the same
  parameter is ignored. \<open>first_option_value\<close> is that value for a parameter name.
\<close>

fun first_option_value :: "string \<Rightarrow> string list \<Rightarrow> string option" where
  "first_option_value key [] = None"
| "first_option_value key [t] = None"
| "first_option_value key (t # u # ts) =
     (if t = ''-o'' then
        (if prefix (key @ ''='') u then Some (drop (length key + 1) u)
         else first_option_value key ts)
      else first_option_value key (u # ts))"

section \<open>Classes of requests\<close>

text \<open>
  An HTTP request reaches the validation when it is authenticated and its body parses to
  a dictionary. A JSON-RPC request is a call of the tool when it carries the protocol
  tag, the method \<open>tools/call\<close>, the tool name \<open>ssh\<close> and a dictionary of
  arguments. \<open>mcp_ssh_dir\<close> is the directory the JSON-RPC adapter resolves, and
  \<open>request_id\<close> the identifier \<open>handle\<close> answers with.
\<close>

definition http_reaches_validation :: "http_request \<Rightarrow> pydict \<Rightarrow> bool" where
  "http_reaches_validation rq d \<longleftrightarrow>
     ((case auth_jwt rq of None \<Rightarrow> False | Some payload \<Rightarrow> payload \<noteq> []) \<or> auth_key rq)
     \<and> is_json rq \<and> get_json rq = Inr (JDict d)"

definition mcp_ssh_call :: "pydict \<Rightarrow> pydict \<Rightarrow> bool" where
  "mcp_ssh_call r args \<longleftrightarrow>
     dict_get r ''jsonrpc'' = JStr JSONRPC \<and> dict_get r ''method'' = JStr ''tools/call''
     \<and> (case dict_get r ''params'' of
           JDict p \<Rightarrow> dict_get p ''name'' = JStr ''ssh'' \<and> dict_get p ''arguments'' = JDict args
         | _ \<Rightarrow> False)"

definition mcp_ssh_dir :: "os_world \<Rightarrow> pydict \<Rightarrow> json" where
  "mcp_ssh_dir w args =
     (if truthy (dict_get args ''ssh_dir'') then dict_get args ''ssh_dir''
      else JStr (case environ_SSH_DIR w of None \<Rightarrow> [] | Some s \<Rightarrow> s))"

definition request_id :: "pydict \<Rightarrow> json" where
  "request_id r = (if dict_get r ''id'' = JNull then JInt 0 else dict_get r ''id'')"

section \<open>Example inputs\<close>

definition d_port_and_opts_bad :: pydict where
  "d_port_and_opts_bad =
     [(''host'', JStr ''example.com''), (''command'', JStr ''uptime''),
      (''port'', JInt 0), (''extra_opts'', JStr ''-v'')]"

definition d_example :: pydict where
  "d_example =
     [(''host'', JStr ''example.com''), (''command'', JStr ''ls''), (''user'', JStr ''alice''),
      (''strict_host_key_checking'', JStr ''yes''), (''extra_opts'', JList [JStr ''-v''])]"

definition example_world :: "proc_outcome \<Rightarrow> rat \<Rightarrow> os_world" where
  "example_world outcome t_end =
     \<lparr>home_dir = Some ''/root'', pw_dir = (\<lambda>u. None), isdir = (\<lambda>p. p = ''/root/.ssh''),
      path_exists = (\<lambda>p. False), access_r = (\<lambda>p. True), environ_SSH_DIR = None,
      run_child = (\<lambda>argv t. outcome), time_start = 0, time_end = t_end,
      json_loads = (\<lambda>s. DecodeError), str_other = (\<lambda>j. ''?''), str_float = (\<lambda>q. ''?''),
      print_raises = (\<lambda>r. None)\<rparr>"

definition a_example :: ssh_args where
  "a_example =
     \<lparr>host = ''example.com'', command = ''ls'', user = Some ''alice'', port = None,
      ssh_dir = None, strict_host_key_checking = Some ''yes'', proxy_jump = None,
      allocate_tty = False, extra_opts = Some [''-v''], timeout = 60\<rparr>"

definition w_rootkit :: os_world where
  "w_rootkit = (example_world TimesOut 1)\<lparr>isdir := (\<lambda>p. p = ''/rootkit'')\<rparr>"

definition rq_with_body :: "pydict \<Rightarrow> http_request" where
  "rq_with_body d = \<lparr>auth_jwt = None, auth_key = True, is_json = True, get_json = Inr (JDict d)\<rparr>"

definition d_missing_host :: pydict where
  "d_missing_host = [(''command'', JStr ''ls'')]"

definition d_bad_dir :: pydict where
  "d_bad_dir = [(''host'', JStr ''example.com''), (''command'', JStr ''ls''),
                (''ssh_dir'', JStr ''../etc/ssh'')]"

definition d_no_dir :: pydict where
  "d_no_dir = [(''host'', JStr ''example.com''), (''command'', JStr ''ls''), (''ssh_dir'', JNull)]"

definition mcp_request :: "json \<Rightarrow> pydict \<Rightarrow> pydict" where
  "mcp_request rid args =
     [(''jsonrpc'', JStr ''2.0''), (''id'', rid), (''method'', JStr ''tools/call''),
      (''params'', JDict [(''name'', JStr ''ssh''), (''arguments'', JDict args)])]"

definition d_port_true :: pydict where
  "d_port_true = [(''host'', JStr ''example.com''), (''command'', JStr ''ls''),
                  (''port'', JBool True)]"

definition w_all_dirs :: os_world where
  "w_all_dirs = (example_world TimesOut 1)\<lparr>isdir := (\<lambda>p. True)\<rparr>"

definition deep_line :: string where
  "deep_line = replicate 100000 (CHR ''['')"

definition w_deep :: os_world where
  "w_deep = (example_world TimesOut 1)
     \<lparr>json_loads := (\<lambda>s. if s = deep_line
                            then LoadsRaises (RecursionError ''maximum recursion depth exceeded'')
                          else DecodeError)\<rparr>"


section \<open>The validator reports the first violated constraint\<close>

lemma str_nat_consts:
  "str_nat 253 = ''253''" "str_nat 8192 = ''8192''" "str_nat 32 = ''32''" "str_nat 4096 = ''4096''"
  "str_int 1 = ''1''" "str_int 3600 = ''3600''"
  by (simp_all add: digit_char_def str_int_def)

lemma check_extra_opts_eq:
  "check_extra_opts xs = (if list_all bounded_string xs then None
     else Some ''Each extra_opts item must be a string with maximum 256 characters'')"
  by (induction xs) (auto simp: bounded_string_def split: json.splits)

lemma stage_host:
  "(case dict_get d ''host'' of JStr s \<Rightarrow> length (strip s) = 0 | _ \<Rightarrow> True) = (\<not> host_is_nonblank_string d)"
  by (simp add: host_is_nonblank_string_def split: json.splits)

lemma stage_host_length:
  "(case dict_get d ''host'' of JStr s \<Rightarrow> length s > MAX_HOST_LENGTH | _ \<Rightarrow> False) = (\<not> host_length_ok d)"
  by (simp add: host_length_ok_def MAX_HOST_LENGTH_def not_le split: json.splits)

lemma stage_command:
  "(case dict_get d ''command'' of JStr s \<Rightarrow> length (strip s) = 0 | _ \<Rightarrow> True) = (\<not> command_is_nonblank_string d)"
  by (simp add: command_is_nonblank_string_def split: json.splits)

lemma stage_command_length:
  "(case dict_get d ''command'' of JStr s \<Rightarrow> length s > MAX_COMMAND_LENGTH | _ \<Rightarrow> False) = (\<not> command_length_ok d)"
  by (simp add: command_length_ok_def MAX_COMMAND_LENGTH_def not_le split: json.splits)

lemma stage_user:
  "(dict_get d ''user'' \<noteq> JNull \<and> (case dict_get d ''user'' of JStr s \<Rightarrow> length s > MAX_USER_LENGTH | _ \<Rightarrow> True))
     = (\<not> user_ok d)"
  by (simp add: user_ok_def MAX_USER_LENGTH_def not_le split: json.splits)

lemma stage_port:
  "(dict_get d ''port'' \<noteq> JNull \<and> (case int_value (dict_get d ''port'') of None \<Rightarrow> True | Some p \<Rightarrow> p < 1 \<or> p > 65535))
     = (\<not> port_accepted d)"
  by (cases "dict_get d ''port''") (auto simp: port_accepted_def)

lemma stage_timeout:
  "(case int_value (dict_get_default d ''timeout'' (JInt 60)) of None \<Rightarrow> True
      | Some t \<Rightarrow> t < MIN_TIMEOUT \<or> t > MAX_TIMEOUT) = (\<not> timeout_accepted d)"
  by (cases "dict_get_default d ''timeout'' (JInt 60)")
     (auto simp: timeout_accepted_def MIN_TIMEOUT_def MAX_TIMEOUT_def)

lemma stage_ssh_dir:
  "(dict_get d ''ssh_dir'' \<noteq> JNull \<and> (case dict_get d ''ssh_dir'' of JStr s \<Rightarrow> length s > MAX_SSH_DIR_LENGTH | _ \<Rightarrow> True))
     = (\<not> ssh_dir_ok d)"
  by (simp add: ssh_dir_ok_def MAX_SSH_DIR_LENGTH_def not_le split: json.splits)

lemma stage_strict:
  "(dict_get d ''strict_host_key_checking'' \<noteq> JNull
     \<and> dict_get d ''strict_host_key_checking'' \<notin> set [JStr ''yes'', JStr ''no'', JStr ''accept-new''])
     = (\<not> strict_host_key_checking_ok d)"
  by (auto simp: strict_host_key_checking_ok_def)

lemma stage_proxy_jump:
  "(dict_get d ''proxy_jump'' \<noteq> JNull \<and> (case dict_get d ''proxy_jump'' of JStr s \<Rightarrow> length s > MAX_HOST_LENGTH | _ \<Rightarrow> True))
     = (\<not> proxy_jump_ok d)"
  by (simp add: proxy_jump_ok_def MAX_HOST_LENGTH_def not_le split: json.splits)

lemma stage_allocate_tty:
  "(dict_get d ''allocate_tty'' \<noteq> JNull \<and> (case dict_get d ''allocate_tty'' of JBool b \<Rightarrow> False | _ \<Rightarrow> True))
     = (\<not> allocate_tty_ok d)"
  by (simp add: allocate_tty_ok_def split: json.splits)

lemma stage_extra_opts:
  "(if dict_get d ''extra_opts'' \<noteq> JNull then
       (case dict_get d ''extra_opts'' of
          JList opts \<Rightarrow> check_extra_opts opts
        | _ \<Rightarrow> Some ''extra_opts must be an array'')
     else None)
   = (if extra_opts_is_array d then
        (if extra_opts_items_ok d then None
         else Some ''Each extra_opts item must be a string with maximum 256 characters'')
      else Some ''extra_opts must be an array'')"
  by (simp add: extra_opts_is_array_def extra_opts_items_ok_def check_extra_opts_eq split: json.splits)

lemmas stages = stage_host stage_host_length stage_command stage_command_length stage_user
  stage_port stage_timeout stage_ssh_dir stage_strict stage_proxy_jump stage_allocate_tty
  stage_extra_opts

lemma if_swap: "(if \<not> P then a else b) = (if P then b else a)"
  by simp

lemma message_numbers:
  "str_nat MAX_HOST_LENGTH = ''253''" "str_nat MAX_COMMAND_LENGTH = ''8192''"
  "str_nat MAX_USER_LENGTH = ''32''" "str_nat MAX_SSH_DIR_LENGTH = ''4096''"
  "str_int MIN_TIMEOUT = ''1''" "str_int MAX_TIMEOUT = ''3600''"
  unfolding MAX_HOST_LENGTH_def MAX_COMMAND_LENGTH_def MAX_USER_LENGTH_def
    MAX_SSH_DIR_LENGTH_def MIN_TIMEOUT_def MAX_TIMEOUT_def
  by (rule str_nat_consts)+

lemma validate_first_failure: "validate_ssh_parameters d = first_failure code_checks d"
  unfolding validate_ssh_parameters_def Let_def stages message_numbers
  unfolding code_checks_def constraints_with_def first_failure.simps has_host_def has_command_def
    if_swap append.simps
  by (rule refl)

lemma first_failure_index:
  "i < length cs \<Longrightarrow> \<not> fst (cs ! i) d \<Longrightarrow> \<forall>j<i. fst (cs ! j) d
     \<Longrightarrow> first_failure cs d = Some (snd (cs ! i))"
proof (induction cs arbitrary: i)
  case Nil
  then show ?case by simp
next
  case (Cons c cs)
  obtain ok msg where c: "c = (ok, msg)" by (cases c)
  show ?case
  proof (cases i)
    case 0
    with Cons.prems c show ?thesis by simp
  next
    case (Suc k)
    from Cons.prems(3) Suc have "fst ((c # cs) ! 0) d" by blast
    hence okd: "ok d" using c by simp
    have "\<forall>j<k. fst (cs ! j) d"
    proof (intro allI impI)
      fix j assume "j < k"
      hence "Suc j < i" using Suc by simp
      with Cons.prems(3) have "fst ((c # cs) ! Suc j) d" by blast
      thus "fst (cs ! j) d" by simp
    qed
    moreover have "k < length cs" "\<not> fst (cs ! k) d" using Cons.prems Suc by auto
    ultimately have "first_failure cs d = Some (snd (cs ! k))" by (rule Cons.IH[rotated 2])
    thus ?thesis using c okd Suc by simp
  qed
qed

lemma first_failure_none:
  "\<forall>i<length cs. fst (cs ! i) d \<Longrightarrow> first_failure cs d = None"
proof (induction cs)
  case Nil
  then show ?case by simp
next
  case (Cons c cs)
  obtain ok msg where c: "c = (ok, msg)" by (cases c)
  from Cons.prems have "fst ((c # cs) ! 0) d" by blast
  hence okd: "ok d" using c by simp
  have "\<forall>i<length cs. fst (cs ! i) d"
  proof (intro allI impI)
    fix i assume "i < length cs"
    hence "Suc i < length (c # cs)" by simp
    with Cons.prems have "fst ((c # cs) ! Suc i) d" by blast
    thus "fst (cs ! i) d" by simp
  qed
  with Cons.IH c okd show ?case by simp
qed

lemmas constraint_defs = has_host_def has_command_def host_is_nonblank_string_def
  host_length_ok_def command_is_nonblank_string_def command_length_ok_def user_ok_def port_ok_def
  timeout_ok_def port_accepted_def timeout_accepted_def ssh_dir_ok_def
  strict_host_key_checking_ok_def proxy_jump_ok_def
  allocate_tty_ok_def extra_opts_is_array_def extra_opts_items_ok_def bounded_string_def

lemmas eval_defs = dict_get_def dict_get_default_def strip_def py_isspace_def

text \<open>
  Where neither \<open>port\<close> nor \<open>timeout\<close> is a boolean, the tests of the code are the
  constraints of the specification, and the validator reports the first violated
  constraint of the ordered list, or \<open>None\<close> when there is none.
\<close>

lemma validate_first_failure_without_booleans:
  assumes "\<forall>b. dict_get d ''port'' \<noteq> JBool b"
      and "\<forall>b. dict_get_default d ''timeout'' (JInt 60) \<noteq> JBool b"
  shows "validate_ssh_parameters d = first_failure constraints d"
proof -
  have p: "port_accepted d = port_ok d"
    using assms(1) by (cases "dict_get d ''port''") (auto simp: port_accepted_def port_ok_def)
  have t: "timeout_accepted d = timeout_ok d"
    using assms(2)
    by (cases "dict_get_default d ''timeout'' (JInt 60)")
       (auto simp: timeout_accepted_def timeout_ok_def)
  show ?thesis
    by (simp add: validate_first_failure code_checks_def constraints_def constraints_with_def p t)
qed

lemma validate_reports_first_violation_without_booleans:
  assumes "\<forall>b. dict_get d ''port'' \<noteq> JBool b"
      and "\<forall>b. dict_get_default d ''timeout'' (JInt 60) \<noteq> JBool b"
  shows "(\<forall>i<length constraints.
            \<not> fst (constraints ! i) d \<and> (\<forall>j<i. fst (constraints ! j) d)
            \<longrightarrow> validate_ssh_parameters d = Some (snd (constraints ! i)))
         \<and> ((\<forall>i<length constraints. fst (constraints ! i) d)
              \<longrightarrow> validate_ssh_parameters d = None)"
  using first_failure_index[of _ constraints d] first_failure_none[of constraints d]
  by (simp add: validate_first_failure_without_booleans[OF assms])

text \<open>
  A map whose port is 0 and whose \<open>extra_opts\<close> is no array violates the port
  constraint and a later one; the answer is the port message.
\<close>

lemma first_violation_example:
  "\<not> port_ok d_port_and_opts_bad \<and> \<not> extra_opts_is_array d_port_and_opts_bad
   \<and> validate_ssh_parameters d_port_and_opts_bad
       = Some ''Port must be an integer between 1 and 65535''"
  by (simp add: validate_first_failure code_checks_def constraints_with_def
        d_port_and_opts_bad_def constraint_defs eval_defs)

text \<open>
  Claim C5 fails on the code for a boolean. The map with \<open>port\<close> set to \<open>true\<close> meets the
  seven constraints before the port constraint and violates the port constraint, which
  asks for an integer between 1 and 65535. The validator does not return the port
  message: it returns \<open>None\<close>, and the argument vector built from the map carries
  \<open>-p True\<close>.
\<close>

theorem validate_accepts_boolean_port:
  "list_all (\<lambda>c. fst c d_port_true) (take 7 constraints)
   \<and> \<not> fst (constraints ! 7) d_port_true
   \<and> snd (constraints ! 7) = ''Port must be an integer between 1 and 65535''
   \<and> validate_ssh_parameters d_port_true = None
   \<and> call_args d_port_true None
       = Some \<lparr>host = ''example.com'', command = ''ls'', user = None,
                port = Some (PyBool True), ssh_dir = None, strict_host_key_checking = None,
                proxy_jump = None, allocate_tty = False, extra_opts = None, timeout = 60\<rparr>
   \<and> ssh_argv (example_world TimesOut 1)
         \<lparr>host = ''example.com'', command = ''ls'', user = None,
          port = Some (PyBool True), ssh_dir = None, strict_host_key_checking = None,
          proxy_jump = None, allocate_tty = False, extra_opts = None, timeout = 60\<rparr>
       = [''ssh'', ''-o'', ''BatchMode=yes'', ''-o'', ''UserKnownHostsFile=/dev/null'',
          ''-o'', ''StrictHostKeyChecking=no'', ''-o'', ''CheckHostIP=no'',
          ''-o'', ''LogLevel=ERROR'', ''-p'', ''True'', ''example.com'', ''--'', ''ls'']"
proof -
  have a: "list_all (\<lambda>c. fst c d_port_true) (take 7 constraints)"
    by (simp add: constraints_def constraints_with_def d_port_true_def constraint_defs eval_defs)
  have b: "\<not> fst (constraints ! 7) d_port_true"
    by (simp add: constraints_def constraints_with_def d_port_true_def constraint_defs eval_defs)
  have c: "snd (constraints ! 7) = ''Port must be an integer between 1 and 65535''"
    by (simp add: constraints_def constraints_with_def)
  have d: "validate_ssh_parameters d_port_true = None"
    by (simp add: validate_first_failure code_checks_def constraints_with_def d_port_true_def
          constraint_defs eval_defs)
  have e: "call_args d_port_true None
       = Some \<lparr>host = ''example.com'', command = ''ls'', user = None,
                port = Some (PyBool True), ssh_dir = None, strict_host_key_checking = None,
                proxy_jump = None, allocate_tty = False, extra_opts = None, timeout = 60\<rparr>"
    by (simp add: call_args_def d_port_true_def eval_defs)
  have f: "ssh_argv (example_world TimesOut 1)
         \<lparr>host = ''example.com'', command = ''ls'', user = None,
          port = Some (PyBool True), ssh_dir = None, strict_host_key_checking = None,
          proxy_jump = None, allocate_tty = False, extra_opts = None, timeout = 60\<rparr>
       = [''ssh'', ''-o'', ''BatchMode=yes'', ''-o'', ''UserKnownHostsFile=/dev/null'',
          ''-o'', ''StrictHostKeyChecking=no'', ''-o'', ''CheckHostIP=no'',
          ''-o'', ''LogLevel=ERROR'', ''-p'', ''True'', ''example.com'', ''--'', ''ls'']"
    by (simp add: ssh_argv_def ssh_opts_def ssh_target_def EPHEMERAL_DEFAULTS_def)
  from a b c d e f show ?thesis by blast
qed

section \<open>What a validated map contains\<close>

lemma if_else_Some_None: "((if P then X else Some m) = None) = (P \<and> X = None)"
  by simp

lemma validate_None_iff:
  "validate_ssh_parameters d = None \<longleftrightarrow>
     has_host d \<and> has_command d \<and> host_is_nonblank_string d \<and> host_length_ok d
     \<and> command_is_nonblank_string d \<and> command_length_ok d \<and> user_ok d \<and> port_accepted d
     \<and> timeout_accepted d \<and> ssh_dir_ok d \<and> strict_host_key_checking_ok d \<and> proxy_jump_ok d
     \<and> allocate_tty_ok d \<and> extra_opts_is_array d \<and> extra_opts_items_ok d"
  unfolding validate_first_failure code_checks_def constraints_with_def first_failure.simps
    if_else_Some_None
  by simp

lemma validate_Some_nonempty: "validate_ssh_parameters d = Some e \<Longrightarrow> e \<noteq> []"
  unfolding validate_first_failure code_checks_def constraints_with_def first_failure.simps
  by (auto split: if_splits)

lemma as_strs_bounded: "list_all bounded_string xs \<Longrightarrow> \<exists>ss. as_strs xs = Some ss \<and> xs = map JStr ss"
  by (induction xs) (auto simp: bounded_string_def split: json.splits)

lemma validated_call_args:
  assumes "validate_ssh_parameters d = None"
  shows "\<exists>a. call_args d sd = Some a \<and> ssh_dir a = sd
          \<and> dict_get d ''host'' = JStr (host a) \<and> dict_get d ''command'' = JStr (command a)
          \<and> dict_get d ''user'' = (case user a of None \<Rightarrow> JNull | Some u \<Rightarrow> JStr u)
          \<and> dict_get d ''extra_opts'' = (case extra_opts a of None \<Rightarrow> JNull | Some xs \<Rightarrow> JList (map JStr xs))
          \<and> dict_get d ''strict_host_key_checking''
               = (case strict_host_key_checking a of None \<Rightarrow> JNull | Some k \<Rightarrow> JStr k)
          \<and> int_value (dict_get_default d ''timeout'' (JInt 60)) = Some (timeout a)"
proof -
  from assms have ok: "host_is_nonblank_string d" "command_is_nonblank_string d" "user_ok d"
    "port_accepted d" "timeout_accepted d" "strict_host_key_checking_ok d" "proxy_jump_ok d"
    "extra_opts_is_array d" "extra_opts_items_ok d"
    by (simp_all add: validate_None_iff)
  from ok(1) obtain h where h: "dict_get d ''host'' = JStr h"
    by (auto simp: host_is_nonblank_string_def split: json.splits)
  from ok(2) obtain c where c: "dict_get d ''command'' = JStr c"
    by (auto simp: command_is_nonblank_string_def split: json.splits)
  from ok(3) obtain u where u: "as_opt_str (dict_get d ''user'') = Some u"
      "dict_get d ''user'' = (case u of None \<Rightarrow> JNull | Some s \<Rightarrow> JStr s)"
    by (cases "dict_get d ''user''") (auto simp: user_ok_def)
  from ok(4) obtain p where p: "as_opt_pyint (dict_get d ''port'') = Some p"
    by (cases "dict_get d ''port''") (auto simp: port_accepted_def)
  from ok(5) obtain t where t: "int_value (dict_get_default d ''timeout'' (JInt 60)) = Some t"
    by (cases "dict_get_default d ''timeout'' (JInt 60)") (auto simp: timeout_accepted_def)
  from ok(6) obtain k where k: "as_opt_str (dict_get d ''strict_host_key_checking'') = Some k"
      "dict_get d ''strict_host_key_checking'' = (case k of None \<Rightarrow> JNull | Some s \<Rightarrow> JStr s)"
    by (cases "dict_get d ''strict_host_key_checking''") (auto simp: strict_host_key_checking_ok_def)
  from ok(7) obtain j where j: "as_opt_str (dict_get d ''proxy_jump'') = Some j"
    by (cases "dict_get d ''proxy_jump''") (auto simp: proxy_jump_ok_def)
  have "\<exists>x. as_opt_strs (dict_get d ''extra_opts'') = Some x
          \<and> dict_get d ''extra_opts'' = (case x of None \<Rightarrow> JNull | Some xs \<Rightarrow> JList (map JStr xs))"
  proof (cases "dict_get d ''extra_opts''")
    case (JList xs)
    with ok(9) have "list_all bounded_string xs" by (simp add: extra_opts_items_ok_def)
    from as_strs_bounded[OF this] obtain ss where "as_strs xs = Some ss" "xs = map JStr ss" by blast
    with JList show ?thesis by auto
  qed (use ok(8) in \<open>auto simp: extra_opts_is_array_def\<close>)
  then obtain x where x: "as_opt_strs (dict_get d ''extra_opts'') = Some x"
      "dict_get d ''extra_opts'' = (case x of None \<Rightarrow> JNull | Some xs \<Rightarrow> JList (map JStr xs))"
    by blast
  show ?thesis
    using h c u p t k j x by (simp add: call_args_def)
qed


section \<open>The command invoker\<close>

lemma exec_ssh_spawned: "snd (exec_ssh w a) = [ssh_argv w a]"
  by (simp add: exec_ssh_def Let_def split: proc_outcome.splits)

text \<open>
  Claim C3, as amended. When the child does not finish within the timeout, the result is
  exit code 124, empty stdout, stderr \<open>timeout\<close>, and \<open>duration_seconds\<close> is the
  elapsed wall-clock time rounded to three decimal places.
\<close>

theorem exec_ssh_timeout_result:
  assumes "run_child w (ssh_argv w a) (timeout a) = TimesOut"
  shows "fst (exec_ssh w a)
           = Inr \<lparr>exit_code = 124, stdout = [], stderr = ''timeout'',
                  duration_seconds = round3 (time_end w - time_start w)\<rparr>"
  using assms by (simp add: exec_ssh_def Let_def)

lemma round3_example: "round3 (150001 / 2500) = 60"
proof -
  have "\<lfloor>300002 / 5 :: rat\<rfloor> = 60000" by (simp add: floor_eq_iff)
  thus ?thesis by (simp add: round3_def round_half_even_def Let_def)
qed

text \<open>
  A child that times out after 60.0004 seconds: the reported duration is 60.
\<close>

theorem exec_ssh_timeout_result_witness:
  "run_child (example_world TimesOut (150001 / 2500))
       (ssh_argv (example_world TimesOut (150001 / 2500)) a_example) (timeout a_example) = TimesOut
   \<and> fst (exec_ssh (example_world TimesOut (150001 / 2500)) a_example)
       = Inr \<lparr>exit_code = 124, stdout = [], stderr = ''timeout'', duration_seconds = 60\<rparr>"
proof -
  have h: "run_child (example_world TimesOut (150001 / 2500))
       (ssh_argv (example_world TimesOut (150001 / 2500)) a_example) (timeout a_example) = TimesOut"
    by (simp add: example_world_def)
  from exec_ssh_timeout_result[OF h] h show ?thesis
    by (simp add: example_world_def round3_example)
qed

text \<open>
  Claim C3 as stated asks for \<open>duration_seconds\<close> equal to the elapsed time. In the
  same run the elapsed time is 60.0004 and the reported duration differs from it.
\<close>

theorem exec_ssh_timeout_duration_counterexample:
  "run_child (example_world TimesOut (150001 / 2500))
       (ssh_argv (example_world TimesOut (150001 / 2500)) a_example) (timeout a_example) = TimesOut
   \<and> fst (exec_ssh (example_world TimesOut (150001 / 2500)) a_example)
       = Inr \<lparr>exit_code = 124, stdout = [], stderr = ''timeout'', duration_seconds = 60\<rparr>
   \<and> time_end (example_world TimesOut (150001 / 2500))
       - time_start (example_world TimesOut (150001 / 2500)) = 150001 / 2500
   \<and> duration_seconds (projr (fst (exec_ssh (example_world TimesOut (150001 / 2500)) a_example)))
       \<noteq> time_end (example_world TimesOut (150001 / 2500))
           - time_start (example_world TimesOut (150001 / 2500))"
  by (simp add: exec_ssh_def Let_def example_world_def round3_example)





lemma split_before_last:
  "\<exists>front. a @ b @ c @ d @ e @ f @ x = front @ (x::'a list)"
  by (rule exI[of _ "a @ b @ c @ d @ e @ f"]) simp

lemma split_around_fourth:
  "\<exists>mid rest. a @ b @ c @ s @ e @ f @ x = a @ mid @ s @ (rest::'a list)"
  by (rule exI[of _ "b @ c"], rule exI[of _ "e @ f @ x"]) simp

lemma extra_tokens:
  "(case x of Some xs \<Rightarrow> (if xs \<noteq> [] then xs else []) | None \<Rightarrow> [])
     = (case x of None \<Rightarrow> [] | Some (xs::string list) \<Rightarrow> xs)"
  by (cases x) auto

lemma ssh_argv_layout:
  "\<exists>pre. ssh_argv w a
      = pre @ (case extra_opts a of None \<Rightarrow> [] | Some xs \<Rightarrow> xs)
        @ [(case user a of None \<Rightarrow> host a
            | Some u \<Rightarrow> if u = [] then host a else u @ ''@'' @ host a), ''--'', command a]"
proof -
  have t: "ssh_target a = (case user a of None \<Rightarrow> host a
            | Some u \<Rightarrow> if u = [] then host a else u @ ''@'' @ host a)"
    by (cases "user a") (simp_all add: ssh_target_def)
  have "\<exists>front. ssh_opts w a = front @ (case extra_opts a of None \<Rightarrow> [] | Some xs \<Rightarrow> xs)"
    unfolding ssh_opts_def extra_tokens by (rule split_before_last)
  then obtain front where
    "ssh_opts w a = front @ (case extra_opts a of None \<Rightarrow> [] | Some xs \<Rightarrow> xs)" ..
  hence "ssh_argv w a = (''ssh'' # front) @ (case extra_opts a of None \<Rightarrow> [] | Some xs \<Rightarrow> xs)
           @ [ssh_target a, ''--'', command a]"
    by (simp add: ssh_argv_def)
  thus ?thesis unfolding t by blast
qed

text \<open>
  Claim C4. For every validated map, the argument vector handed to \<open>Popen\<close> ends with
  the entries of \<open>extra_opts\<close>, each one token and unchanged, then the target, then
  \<open>--\<close>, then the command as one token. The target is \<open>user@host\<close> when a non-empty
  user was supplied and \<open>host\<close> otherwise.
\<close>

theorem exec_ssh_argv_layout:
  assumes "validate_ssh_parameters d = None"
  shows "\<exists>a pre. call_args d sd = Some a
          \<and> dict_get d ''host'' = JStr (host a) \<and> dict_get d ''command'' = JStr (command a)
          \<and> dict_get d ''user'' = (case user a of None \<Rightarrow> JNull | Some u \<Rightarrow> JStr u)
          \<and> dict_get d ''extra_opts''
               = (case extra_opts a of None \<Rightarrow> JNull | Some xs \<Rightarrow> JList (map JStr xs))
          \<and> snd (exec_ssh w a)
               = [pre @ (case extra_opts a of None \<Rightarrow> [] | Some xs \<Rightarrow> xs)
                  @ [(case user a of None \<Rightarrow> host a
                      | Some u \<Rightarrow> if u = [] then host a else u @ ''@'' @ host a),
                     ''--'', command a]]"
proof -
  from validated_call_args[OF assms, of sd] obtain a where a: "call_args d sd = Some a"
    "dict_get d ''host'' = JStr (host a)" "dict_get d ''command'' = JStr (command a)"
    "dict_get d ''user'' = (case user a of None \<Rightarrow> JNull | Some u \<Rightarrow> JStr u)"
    "dict_get d ''extra_opts''
               = (case extra_opts a of None \<Rightarrow> JNull | Some xs \<Rightarrow> JList (map JStr xs))"
    by blast
  from ssh_argv_layout[of w a] obtain pre where
    "ssh_argv w a = pre @ (case extra_opts a of None \<Rightarrow> [] | Some xs \<Rightarrow> xs)
        @ [(case user a of None \<Rightarrow> host a
            | Some u \<Rightarrow> if u = [] then host a else u @ ''@'' @ host a), ''--'', command a]"
    by blast
  with a show ?thesis by (auto simp: exec_ssh_spawned)
qed

lemma d_example_valid: "validate_ssh_parameters d_example = None"
  by (simp add: validate_None_iff d_example_def constraint_defs eval_defs)

text \<open>
  With \<open>extra_opts = ["-v"]\<close>, user \<open>alice\<close> and host \<open>example.com\<close>.
\<close>

theorem exec_ssh_argv_layout_witness:
  "validate_ssh_parameters d_example = None
   \<and> (\<exists>a pre. call_args d_example None = Some a
        \<and> snd (exec_ssh (example_world TimesOut 1) a)
             = [pre @ [''-v''] @ [''alice@example.com'', ''--'', ''ls'']])"
proof -
  from exec_ssh_argv_layout[OF d_example_valid, of None "example_world TimesOut 1"]
  obtain a pre where a: "call_args d_example None = Some a"
    "dict_get d_example ''host'' = JStr (host a)" "dict_get d_example ''command'' = JStr (command a)"
    "dict_get d_example ''user'' = (case user a of None \<Rightarrow> JNull | Some u \<Rightarrow> JStr u)"
    "dict_get d_example ''extra_opts''
               = (case extra_opts a of None \<Rightarrow> JNull | Some xs \<Rightarrow> JList (map JStr xs))"
    "snd (exec_ssh (example_world TimesOut 1) a)
       = [pre @ (case extra_opts a of None \<Rightarrow> [] | Some xs \<Rightarrow> xs)
          @ [(case user a of None \<Rightarrow> host a
              | Some u \<Rightarrow> if u = [] then host a else u @ ''@'' @ host a), ''--'', command a]]"
    by blast
  have "host a = ''example.com''" "command a = ''ls''"
    using a(2,3) by (simp_all add: d_example_def eval_defs)
  moreover have "user a = Some ''alice''"
    using a(4) by (cases "user a") (simp_all add: d_example_def eval_defs)
  moreover have "extra_opts a = Some [''-v'']"
    using a(5) by (cases "extra_opts a") (auto simp: d_example_def eval_defs)
  ultimately have "snd (exec_ssh (example_world TimesOut 1) a)
       = [pre @ [''-v''] @ [''alice@example.com'', ''--'', ''ls'']]"
    using a(6) by simp
  with a(1) d_example_valid show ?thesis by blast
qed

text \<open>
  For every validated map that supplies \<open>strict_host_key_checking\<close>, the argument
  vector holds the default pair \<open>-o StrictHostKeyChecking=no\<close> and, at a later
  position, the pair \<open>-o StrictHostKeyChecking=\<close> with the caller's value.
\<close>

lemma strict_host_key_pairs_in_order:
  assumes "validate_ssh_parameters d = None"
      and "dict_get d ''strict_host_key_checking'' = JStr v"
  shows "\<exists>a xs ys zs. call_args d sd = Some a
          \<and> snd (exec_ssh w a)
               = [xs @ [''-o'', ''StrictHostKeyChecking=no''] @ ys
                  @ [''-o'', ''StrictHostKeyChecking='' @ v] @ zs]"
proof -
  from validated_call_args[OF assms(1), of sd] obtain a where a: "call_args d sd = Some a"
    "dict_get d ''strict_host_key_checking''
               = (case strict_host_key_checking a of None \<Rightarrow> JNull | Some k \<Rightarrow> JStr k)"
    by blast
  from a(2) assms(2) have k: "strict_host_key_checking a = Some v"
    by (cases "strict_host_key_checking a") simp_all
  from assms have "strict_host_key_checking_ok d" by (simp add: validate_None_iff)
  with assms(2) have "v \<noteq> []" by (auto simp: strict_host_key_checking_ok_def)
  with k have tr: "str_truthy (strict_host_key_checking a)" by simp
  have "\<exists>mid rest. ssh_opts w a = EPHEMERAL_DEFAULTS @ mid
      @ [''-o'', ''StrictHostKeyChecking='' @ v] @ rest"
    unfolding ssh_opts_def using tr k by (simp only: if_True option.sel) (rule split_around_fourth)
  then obtain mid rest where o: "ssh_opts w a = EPHEMERAL_DEFAULTS @ mid
      @ [''-o'', ''StrictHostKeyChecking='' @ v] @ rest" by blast
  have "ssh_argv w a
          = [''ssh'', ''-o'', ''BatchMode=yes'', ''-o'', ''UserKnownHostsFile=/dev/null'']
            @ [''-o'', ''StrictHostKeyChecking=no'']
            @ ([''-o'', ''CheckHostIP=no'', ''-o'', ''LogLevel=ERROR''] @ mid)
            @ [''-o'', ''StrictHostKeyChecking='' @ v]
            @ (rest @ [ssh_target a, ''--'', command a])"
    by (simp add: ssh_argv_def o EPHEMERAL_DEFAULTS_def)
  with a(1) show ?thesis unfolding exec_ssh_spawned by blast
qed

text \<open>
  Claim C8 expects the caller's value to win. It does not: the default pair stands
  before every token that depends on the arguments, and the client uses the first value
  it obtains, so for every argument set the value in force is \<open>no\<close>, whatever the caller
  supplied.
\<close>

theorem strict_host_key_checking_default_wins:
  "\<exists>argv. snd (exec_ssh w a) = [argv]
          \<and> first_option_value ''StrictHostKeyChecking'' argv = Some ''no''"
proof -
  obtain rest where "ssh_opts w a = EPHEMERAL_DEFAULTS @ rest"
    unfolding ssh_opts_def by blast
  hence "first_option_value ''StrictHostKeyChecking'' (ssh_argv w a) = Some ''no''"
    by (simp add: ssh_argv_def EPHEMERAL_DEFAULTS_def)
  thus ?thesis by (simp add: exec_ssh_spawned)
qed

text \<open>
  The example map passes validation and supplies \<open>yes\<close>; the argument vector holds
  \<open>-o StrictHostKeyChecking=yes\<close>, and the value in force is \<open>no\<close>.
\<close>

theorem strict_host_key_checking_default_wins_witness:
  "validate_ssh_parameters d_example = None
   \<and> call_args d_example None = Some a_example
   \<and> strict_host_key_checking a_example = Some ''yes''
   \<and> ssh_argv (example_world TimesOut 1) a_example
       = [''ssh'', ''-o'', ''BatchMode=yes'', ''-o'', ''UserKnownHostsFile=/dev/null'',
          ''-o'', ''StrictHostKeyChecking=no'', ''-o'', ''CheckHostIP=no'',
          ''-o'', ''LogLevel=ERROR'', ''-o'', ''StrictHostKeyChecking=yes'', ''-v'',
          ''alice@example.com'', ''--'', ''ls'']
   \<and> (\<exists>argv. snd (exec_ssh (example_world TimesOut 1) a_example) = [argv]
          \<and> first_option_value ''StrictHostKeyChecking'' argv = Some ''no'')"
proof -
  have c: "call_args d_example None = Some a_example"
    by (simp add: call_args_def d_example_def a_example_def eval_defs)
  have k: "strict_host_key_checking a_example = Some ''yes''"
    by (simp add: a_example_def)
  have v: "ssh_argv (example_world TimesOut 1) a_example
       = [''ssh'', ''-o'', ''BatchMode=yes'', ''-o'', ''UserKnownHostsFile=/dev/null'',
          ''-o'', ''StrictHostKeyChecking=no'', ''-o'', ''CheckHostIP=no'',
          ''-o'', ''LogLevel=ERROR'', ''-o'', ''StrictHostKeyChecking=yes'', ''-v'',
          ''alice@example.com'', ''--'', ''ls'']"
    by (simp add: ssh_argv_def ssh_opts_def ssh_target_def EPHEMERAL_DEFAULTS_def a_example_def)
  from strict_host_key_checking_default_wins[of "example_world TimesOut 1" a_example]
    d_example_valid c k v
  show ?thesis by blast
qed

section \<open>Validation of the ssh directory\<close>

lemma expanduser_ignores_files [simp]:
  "expanduser (w\<lparr>isdir := ex, access_r := rd\<rparr>) p = expanduser w p"
  by (simp add: expanduser_def Let_def split: option.splits)

lemma allowed_prefixes_ignores_files [simp]:
  "allowed_prefixes (w\<lparr>isdir := ex, access_r := rd\<rparr>) = allowed_prefixes w"
  by (simp add: allowed_prefixes_def)

text \<open>
  The test of the code compares the text of the expanded path with the allowed prefixes
  and is decided before the file system is consulted: where no allowed prefix begins the
  expanded path, the answer is \<open>SSH directory path not allowed\<close> whether or not the
  path exists.
\<close>

lemma prefix_test_precedes_file_system:
  assumes "sublist ''..'' dir \<or> prefix ''/'' dir"
      and "\<not> list_ex (\<lambda>p. prefix p (expanduser w dir)) (allowed_prefixes w)"
  shows "validate_ssh_directory (w\<lparr>isdir := ex, access_r := rd\<rparr>) dir
           = Some ''SSH directory path not allowed''"
proof -
  from assms(1) have "dir \<noteq> []" by auto
  with assms show ?thesis by (simp add: validate_ssh_directory_def Let_def)
qed

text \<open>
  Claim C7 fails on the code for a path that leaves an allowed directory through
  \<open>..\<close>. The path \<open>/home/../etc/ssh\<close> contains \<open>..\<close>, starts from the root and
  resolves to \<open>/etc/ssh\<close>, under no allowed home directory; the same holds for
  \<open>~/../../etc/ssh\<close> with the home directory \<open>/root\<close>. The code compares the text of
  the path before resolving it, finds an allowed prefix, and where the directory exists
  and is readable it accepts the path instead of answering
  \<open>SSH directory path not allowed\<close>.
\<close>

theorem traversal_through_allowed_prefix_accepted:
  "sublist ''..'' ''/home/../etc/ssh'' \<and> prefix ''/'' ''/home/../etc/ssh''
   \<and> resolved_segments (expanduser w_all_dirs ''/home/../etc/ssh'') = [''etc'', ''ssh'']
   \<and> \<not> spec_resolves_under_allowed w_all_dirs ''/home/../etc/ssh''
   \<and> validate_ssh_directory w_all_dirs ''/home/../etc/ssh'' = None
   \<and> sublist ''..'' ''~/../../etc/ssh''
   \<and> expanduser w_all_dirs ''~/../../etc/ssh'' = ''/root/../../etc/ssh''
   \<and> resolved_segments (expanduser w_all_dirs ''~/../../etc/ssh'') = [''etc'', ''ssh'']
   \<and> \<not> spec_resolves_under_allowed w_all_dirs ''~/../../etc/ssh''
   \<and> validate_ssh_directory w_all_dirs ''~/../../etc/ssh'' = None"
proof -
  have e1: "expanduser w_all_dirs ''/home/../etc/ssh'' = ''/home/../etc/ssh''"
    by (simp add: expanduser_def)
  have e2: "expanduser w_all_dirs ''~/../../etc/ssh'' = ''/root/../../etc/ssh''"
    by (simp add: expanduser_def w_all_dirs_def example_world_def rstrip_slash_def)
  have e3: "expanduser w_all_dirs ''~'' = ''/root''"
    by (simp add: expanduser_def w_all_dirs_def example_world_def rstrip_slash_def)
  have r1: "resolved_segments ''/home/../etc/ssh'' = [''etc'', ''ssh'']"
    by (simp add: resolved_segments_def)
  have r2: "resolved_segments ''/root/../../etc/ssh'' = [''etc'', ''ssh'']"
    by (simp add: resolved_segments_def)
  have r3: "resolved_segments ''/home/'' = [''home'']" "resolved_segments ''/Users/'' = [''Users'']"
    "resolved_segments ''/root'' = [''root'']"
    by (simp_all add: resolved_segments_def)
  have n1: "\<not> spec_resolves_under_allowed w_all_dirs ''/home/../etc/ssh''"
    by (simp add: spec_resolves_under_allowed_def allowed_prefixes_def e1 e3 r1 r3)
  have n2: "\<not> spec_resolves_under_allowed w_all_dirs ''~/../../etc/ssh''"
    by (simp add: spec_resolves_under_allowed_def allowed_prefixes_def e2 e3 r2 r3)
  have v1: "validate_ssh_directory w_all_dirs ''/home/../etc/ssh'' = None"
    by (simp add: validate_ssh_directory_def Let_def e1 e3 allowed_prefixes_def)
       (simp add: w_all_dirs_def example_world_def)
  have v2: "validate_ssh_directory w_all_dirs ''~/../../etc/ssh'' = None"
    by (simp add: validate_ssh_directory_def Let_def e2 e3 allowed_prefixes_def)
       (simp add: w_all_dirs_def example_world_def)
  have s1: "sublist ''..'' ''/home/../etc/ssh''" "sublist ''..'' ''~/../../etc/ssh''"
    by (simp_all add: sublist_code)
  from s1 e1 e2 r1 r2 n1 n2 v1 v2 show ?thesis by simp
qed

lemma rstrip_slash_id: "h \<noteq> [] \<Longrightarrow> last h \<noteq> CHR ''/'' \<Longrightarrow> rstrip_slash h = h"
  by (cases h rule: rev_cases) (simp_all add: rstrip_slash_def)

text \<open>
  Claim C10. The allow-list test is a comparison of string prefixes, and the third prefix
  is the home directory without a trailing separator: every path whose text begins with
  the home directory of the current user passes the allow-list test, so an absolute path
  outside every allowed directory exists that is not answered with
  \<open>SSH directory path not allowed\<close>.
\<close>

theorem home_prefix_passes_allow_list:
  assumes "home_dir w = Some h" and "prefix ''/'' h" and "last h \<noteq> CHR ''/''"
  shows "validate_ssh_directory w (h @ s) \<noteq> Some ''SSH directory path not allowed''"
proof -
  from assms(2) obtain t where h: "h = CHR ''/'' # t" by (cases h) auto
  hence ne: "h \<noteq> []" by simp
  have e1: "expanduser w (h @ s) = h @ s" by (simp add: expanduser_def h)
  have e2: "expanduser w ''~'' = h"
    using assms(1) ne by (simp add: expanduser_def rstrip_slash_id[OF ne assms(3)])
  have "list_ex (\<lambda>p. prefix p (expanduser w (h @ s))) (allowed_prefixes w)"
    by (simp add: allowed_prefixes_def e1 e2)
  thus ?thesis by (simp add: validate_ssh_directory_def Let_def)
qed

text \<open>
  With the home directory \<open>/root\<close>, the sibling directory \<open>/rootkit\<close> lies under
  none of \<open>/home/\<close>, \<open>/Users/\<close> and \<open>/root/\<close>; where it exists and is readable
  the validation accepts it.
\<close>

theorem home_prefix_passes_allow_list_witness:
  "home_dir w_rootkit = Some ''/root'' \<and> prefix ''/'' ''/root'' \<and> last ''/root'' \<noteq> CHR ''/''
   \<and> \<not> prefix ''/home/'' ''/rootkit'' \<and> \<not> prefix ''/Users/'' ''/rootkit''
   \<and> \<not> prefix ''/root/'' ''/rootkit'' \<and> ''/rootkit'' \<noteq> ''/root''
   \<and> validate_ssh_directory w_rootkit (''/root'' @ ''kit'')
        \<noteq> Some ''SSH directory path not allowed''
   \<and> validate_ssh_directory w_rootkit ''/rootkit'' = None"
proof -
  have a: "home_dir w_rootkit = Some ''/root''" by (simp add: w_rootkit_def example_world_def)
  have b: "prefix ''/'' ''/root''" and c: "last ''/root'' \<noteq> CHR ''/''" by simp_all
  have d: "validate_ssh_directory w_rootkit ''/rootkit'' = None"
    by (simp add: validate_ssh_directory_def Let_def w_rootkit_def example_world_def
          allowed_prefixes_def expanduser_def rstrip_slash_def sublist_code)
  from home_prefix_passes_allow_list[OF a b c, of "''kit''"] a d show ?thesis by simp
qed

section \<open>The adapters\<close>

lemma validate_ssh_directory_Some:
  "validate_ssh_directory w sd = Some e \<Longrightarrow> sd \<noteq> [] \<and> e \<noteq> []"
  by (auto simp: validate_ssh_directory_def Let_def split: if_splits)

lemma checked_ssh_dir_error:
  "validate_ssh_directory w sd = Some e \<Longrightarrow> checked_ssh_dir w (Some sd) = Inl e"
  by (frule validate_ssh_directory_Some) (simp add: checked_ssh_dir_def Let_def)

lemma run_cmd_validation_error:
  assumes "http_reaches_validation rq d" and "validate_ssh_parameters d = Some e"
  shows "run_cmd w S rq = (Inr (error_response e 400), [])"
proof -
  from assms(2) have "e \<noteq> []" by (rule validate_Some_nonempty)
  with assms show ?thesis
    by (simp add: run_cmd_def http_reaches_validation_def Let_def)
qed

lemma run_cmd_directory_error:
  assumes "http_reaches_validation rq d" and "validate_ssh_parameters d = None"
      and "dict_get_default d ''ssh_dir'' (JStr S) = JStr sd"
      and "validate_ssh_directory w sd = Some e"
  shows "run_cmd w S rq = (Inr (error_response e 400), [])"
  using assms checked_ssh_dir_error[OF assms(4)]
  by (simp add: run_cmd_def http_reaches_validation_def Let_def)

lemma mcp_tools_call_validation_error:
  assumes "dict_get p ''name'' = JStr ''ssh''" and "dict_get p ''arguments'' = JDict args"
      and "validate_ssh_parameters args = Some e"
  shows "mcp_tools_call w (JDict p) = (Inl (ValueError (''Invalid parameters: '' @ e)), [])"
proof -
  from assms(3) have "e \<noteq> []" by (rule validate_Some_nonempty)
  moreover have "(if truthy (dict_get p ''arguments'') then dict_get p ''arguments'' else JDict [])
                   = JDict args"
    using assms(2) by simp
  ultimately show ?thesis using assms(1,3)
    by (simp add: mcp_tools_call_def Let_def)
qed

lemma mcp_tools_call_directory_error:
  assumes "dict_get p ''name'' = JStr ''ssh''" and "dict_get p ''arguments'' = JDict args"
      and "validate_ssh_parameters args = None"
      and "mcp_ssh_dir w args = JStr sd"
      and "validate_ssh_directory w sd = Some e"
  shows "mcp_tools_call w (JDict p) = (Inl (ValueError (''SSH directory error: '' @ e)), [])"
proof -
  have a: "(if truthy (dict_get p ''arguments'') then dict_get p ''arguments'' else JDict [])
                   = JDict args"
    using assms(2) by simp
  have b: "(if truthy (dict_get args ''ssh_dir'') then as_opt_str (dict_get args ''ssh_dir'')
            else Some (Some (case environ_SSH_DIR w of None \<Rightarrow> [] | Some s \<Rightarrow> s)))
           = Some (Some sd)"
    using assms(4) by (auto simp: mcp_ssh_dir_def split: if_splits)
  show ?thesis
    using assms(1,3) checked_ssh_dir_error[OF assms(5)]
    by (simp add: mcp_tools_call_def Let_def a b)
qed

lemma handle_tools_call:
  assumes "mcp_ssh_call r args"
  shows "\<exists>p. dict_get r ''params'' = JDict p \<and> dict_get p ''name'' = JStr ''ssh''
          \<and> dict_get p ''arguments'' = JDict args
          \<and> handle w (JDict r)
              = (case mcp_tools_call w (JDict p) of
                   (Inr result, spawned) \<Rightarrow> (jr_result (request_id r) result, spawned)
                 | (Inl e, spawned) \<Rightarrow> (exception_response (request_id r) e, spawned))"
proof -
  from assms obtain p where p: "dict_get r ''params'' = JDict p" "dict_get p ''name'' = JStr ''ssh''"
      "dict_get p ''arguments'' = JDict args"
    by (auto simp: mcp_ssh_call_def split: json.splits)
  from p(2) have "p \<noteq> []" by (auto simp: dict_get_def)
  hence t: "truthy (dict_get r ''params'')" using p(1) by simp
  from assms have j: "dict_get r ''jsonrpc'' = JStr JSONRPC" "dict_get r ''method'' = JStr ''tools/call''"
    by (simp_all add: mcp_ssh_call_def)
  have "handle w (JDict r)
              = (case mcp_tools_call w (JDict p) of
                   (Inr result, spawned) \<Rightarrow> (jr_result (request_id r) result, spawned)
                 | (Inl e, spawned) \<Rightarrow> (exception_response (request_id r) e, spawned))"
    using j t p(1) by (simp add: handle_def Let_def request_id_def split: prod.splits sum.splits)
  with p show ?thesis by blast
qed

text \<open>
  Claim C6. On either front-end, a request whose parameters fail
  \<open>validate_ssh_parameters\<close>, or whose ssh directory fails
  \<open>validate_ssh_directory\<close>, is answered with the error and the list of spawned
  processes is empty: the HTTP adapter answers 400 with the message, the JSON-RPC adapter
  answers the error object built from the \<open>ValueError\<close>.
\<close>

theorem no_spawn_when_validation_fails:
  "(http_reaches_validation rq d \<and> validate_ssh_parameters d = Some e
      \<longrightarrow> run_cmd w S rq = (Inr (error_response e 400), []))
   \<and> (http_reaches_validation rq d \<and> validate_ssh_parameters d = None
       \<and> dict_get_default d ''ssh_dir'' (JStr S) = JStr sd \<and> validate_ssh_directory w sd = Some e
      \<longrightarrow> run_cmd w S rq = (Inr (error_response e 400), []))
   \<and> (mcp_ssh_call r args \<and> validate_ssh_parameters args = Some e
      \<longrightarrow> handle w (JDict r)
            = (value_error_response (request_id r) (''Invalid parameters: '' @ e), []))
   \<and> (mcp_ssh_call r args \<and> validate_ssh_parameters args = None
       \<and> mcp_ssh_dir w args = JStr sd \<and> validate_ssh_directory w sd = Some e
      \<longrightarrow> handle w (JDict r)
            = (value_error_response (request_id r) (''SSH directory error: '' @ e), []))"
proof (intro conjI impI)
  assume "http_reaches_validation rq d \<and> validate_ssh_parameters d = Some e"
  thus "run_cmd w S rq = (Inr (error_response e 400), [])"
    using run_cmd_validation_error by blast
next
  assume "http_reaches_validation rq d \<and> validate_ssh_parameters d = None
       \<and> dict_get_default d ''ssh_dir'' (JStr S) = JStr sd \<and> validate_ssh_directory w sd = Some e"
  thus "run_cmd w S rq = (Inr (error_response e 400), [])"
    using run_cmd_directory_error by blast
next
  assume a: "mcp_ssh_call r args \<and> validate_ssh_parameters args = Some e"
  from handle_tools_call[of r args w] a obtain p where p: "dict_get p ''name'' = JStr ''ssh''"
     "dict_get p ''arguments'' = JDict args"
     "handle w (JDict r)
              = (case mcp_tools_call w (JDict p) of
                   (Inr result, spawned) \<Rightarrow> (jr_result (request_id r) result, spawned)
                 | (Inl e, spawned) \<Rightarrow> (exception_response (request_id r) e, spawned))"
    by blast
  from mcp_tools_call_validation_error[OF p(1,2), of e w] a p(3)
  show "handle w (JDict r)
            = (value_error_response (request_id r) (''Invalid parameters: '' @ e), [])"
    by simp
next
  assume a: "mcp_ssh_call r args \<and> validate_ssh_parameters args = None
       \<and> mcp_ssh_dir w args = JStr sd \<and> validate_ssh_directory w sd = Some e"
  from handle_tools_call[of r args w] a obtain p where p: "dict_get p ''name'' = JStr ''ssh''"
     "dict_get p ''arguments'' = JDict args"
     "handle w (JDict r)
              = (case mcp_tools_call w (JDict p) of
                   (Inr result, spawned) \<Rightarrow> (jr_result (request_id r) result, spawned)
                 | (Inl e, spawned) \<Rightarrow> (exception_response (request_id r) e, spawned))"
    by blast
  from a have "validate_ssh_parameters args = None" "mcp_ssh_dir w args = JStr sd"
    "validate_ssh_directory w sd = Some e" by simp_all
  from mcp_tools_call_directory_error[OF p(1,2) this] p(3)
  show "handle w (JDict r)
            = (value_error_response (request_id r) (''SSH directory error: '' @ e), [])"
    by simp
qed


lemma d_missing_host_invalid:
  "validate_ssh_parameters d_missing_host = Some ''Missing required parameter: host''"
  by (simp add: validate_first_failure code_checks_def constraints_with_def d_missing_host_def
        constraint_defs eval_defs)

lemma d_bad_dir_valid: "validate_ssh_parameters d_bad_dir = None"
  by (simp add: validate_None_iff d_bad_dir_def constraint_defs eval_defs)

lemma bad_dir_rejected:
  "validate_ssh_directory (example_world TimesOut 1) ''../etc/ssh''
     = Some ''SSH directory path not allowed''"
  by (simp add: validate_ssh_directory_def Let_def example_world_def allowed_prefixes_def
        expanduser_def rstrip_slash_def sublist_code)

lemma rq_with_body_reaches: "http_reaches_validation (rq_with_body d) d"
  by (simp add: http_reaches_validation_def rq_with_body_def)

lemma mcp_request_is_call: "mcp_ssh_call (mcp_request rid args) args"
  by (simp add: mcp_ssh_call_def mcp_request_def dict_get_def JSONRPC_def)

text \<open>
  A request without \<open>host\<close> and a request with the directory \<open>../etc/ssh\<close>, on
  both front-ends.
\<close>

theorem no_spawn_when_validation_fails_witness:
  "run_cmd (example_world TimesOut 1) ''/root/.ssh'' (rq_with_body d_missing_host)
     = (Inr (400, JDict [(''error'', JStr ''Missing required parameter: host'')]), [])
   \<and> run_cmd (example_world TimesOut 1) ''/root/.ssh'' (rq_with_body d_bad_dir)
     = (Inr (400, JDict [(''error'', JStr ''SSH directory path not allowed'')]), [])
   \<and> snd (handle (example_world TimesOut 1) (JDict (mcp_request (JInt 7) d_missing_host))) = []
   \<and> snd (handle (example_world TimesOut 1) (JDict (mcp_request (JInt 7) d_bad_dir))) = []"
proof -
  let ?w = "example_world TimesOut 1"
  note t1 = no_spawn_when_validation_fails[of "rq_with_body d_missing_host" d_missing_host
      "''Missing required parameter: host''" ?w "''/root/.ssh''" _ "mcp_request (JInt 7) d_missing_host"
      d_missing_host]
  note t2 = no_spawn_when_validation_fails[of "rq_with_body d_bad_dir" d_bad_dir
      "''SSH directory path not allowed''" ?w "''/root/.ssh''" "''../etc/ssh''"
      "mcp_request (JInt 7) d_bad_dir" d_bad_dir]
  have sd1: "dict_get_default d_bad_dir ''ssh_dir'' (JStr ''/root/.ssh'') = JStr ''../etc/ssh''"
    by (simp add: d_bad_dir_def dict_get_default_def)
  have sd2: "mcp_ssh_dir ?w d_bad_dir = JStr ''../etc/ssh''"
    by (simp add: mcp_ssh_dir_def d_bad_dir_def dict_get_def)
  from t1 rq_with_body_reaches d_missing_host_invalid
  have a: "run_cmd ?w ''/root/.ssh'' (rq_with_body d_missing_host)
     = (Inr (error_response ''Missing required parameter: host'' 400), [])" by blast
  from t2 rq_with_body_reaches d_bad_dir_valid sd1 bad_dir_rejected
  have b: "run_cmd ?w ''/root/.ssh'' (rq_with_body d_bad_dir)
     = (Inr (error_response ''SSH directory path not allowed'' 400), [])" by blast
  from t1 mcp_request_is_call d_missing_host_invalid
  have c: "snd (handle ?w (JDict (mcp_request (JInt 7) d_missing_host))) = []" by simp
  from t2 mcp_request_is_call d_bad_dir_valid sd2 bad_dir_rejected
  have d: "snd (handle ?w (JDict (mcp_request (JInt 7) d_bad_dir))) = []" by simp
  from a b c d show ?thesis by (simp add: error_response_def)
qed


lemma validated_ssh_dir_http:
  assumes "validate_ssh_parameters d = None"
  shows "\<exists>sd. as_opt_str (dict_get_default d ''ssh_dir'' (JStr S)) = Some sd"
proof -
  from assms have ok: "ssh_dir_ok d" by (simp add: validate_None_iff)
  show ?thesis
  proof (cases "map_of d ''ssh_dir''")
    case None
    thus ?thesis by (simp add: dict_get_default_def)
  next
    case (Some v)
    hence "dict_get_default d ''ssh_dir'' (JStr S) = dict_get d ''ssh_dir''"
      by (simp add: dict_get_default_def dict_get_def)
    with ok show ?thesis
      by (cases "dict_get d ''ssh_dir''") (auto simp: ssh_dir_ok_def)
  qed
qed

lemma run_cmd_executes:
  assumes "http_reaches_validation rq d" and "validate_ssh_parameters d = None"
      and "as_opt_str (dict_get_default d ''ssh_dir'' (JStr S)) = Some sd"
      and "checked_ssh_dir w sd = Inr sdir"
      and "call_args d sdir = Some a"
      and "fst (exec_ssh w a) = Inr res"
  shows "run_cmd w S rq = (Inr (200, jsonify_result res), [ssh_argv w a])"
proof -
  from assms(6) exec_ssh_spawned[of w a] have "exec_ssh w a = (Inr res, [ssh_argv w a])"
    by (cases "exec_ssh w a") simp
  with assms(1-5) show ?thesis
    by (simp add: run_cmd_def http_reaches_validation_def Let_def)
qed

text \<open>
  Claim C1 expects status 504 when the child process exceeds the timeout. The code
  answers otherwise: \<open>exec_ssh\<close> catches \<open>TimeoutExpired\<close> itself, so for every
  authenticated request that passes both validations and whose child times out,
  \<open>run_cmd\<close> answers 200 with the result of exit code 124 as the body.
\<close>

theorem run_cmd_timeout_answers_200:
  assumes "http_reaches_validation rq d" and "validate_ssh_parameters d = None"
      and "as_opt_str (dict_get_default d ''ssh_dir'' (JStr S)) = Some sd"
      and "checked_ssh_dir w sd = Inr sdir"
      and "call_args d sdir = Some a"
      and "run_child w (ssh_argv w a) (timeout a) = TimesOut"
  shows "run_cmd w S rq
           = (Inr (200, jsonify_result \<lparr>exit_code = 124, stdout = [], stderr = ''timeout'',
                      duration_seconds = round3 (time_end w - time_start w)\<rparr>),
              [ssh_argv w a])"
proof -
  from assms(6) have "fst (exec_ssh w a)
           = Inr \<lparr>exit_code = 124, stdout = [], stderr = ''timeout'',
                  duration_seconds = round3 (time_end w - time_start w)\<rparr>"
    by (simp add: exec_ssh_def Let_def)
  from run_cmd_executes[OF assms(1-5) this] show ?thesis .
qed

lemma exec_ssh_exceptions:
  "fst (exec_ssh w a) = Inl e \<Longrightarrow> (\<exists>m. e = OSError m) \<or> (\<exists>m. e = UnicodeDecodeError m)"
  by (auto simp: exec_ssh_def Let_def split: proc_outcome.splits)

text \<open>No request is answered with status 504: the handler for \<open>TimeoutExpired\<close> in
  \<open>run_cmd\<close> is never entered.\<close>

lemma run_cmd_status:
  assumes "fst (run_cmd w S rq) = Inr (st, body)"
  shows "st = 200 \<or> st = 400 \<or> st = 401 \<or> st = 500"
proof -
  have ex: "e \<noteq> TimeoutExpired" if "exec_ssh w a = (Inl e, sp)" for a e sp
  proof -
    from that have "fst (exec_ssh w a) = Inl e" by simp
    from exec_ssh_exceptions[OF this] show ?thesis by auto
  qed
  show ?thesis
    using assms
    by (auto simp: run_cmd_def Let_def error_response_def dest: ex
             split: if_splits sum.splits json.splits option.splits prod.splits py_exc.splits)
qed

text \<open>
  A valid request for \<open>ls\<close> on \<open>example.com\<close> whose child times out after 60.0004
  seconds.
\<close>

theorem run_cmd_timeout_answers_200_witness:
  "http_reaches_validation (rq_with_body d_no_dir) d_no_dir
   \<and> validate_ssh_parameters d_no_dir = None
   \<and> run_child (example_world TimesOut (150001 / 2500))
        (ssh_argv (example_world TimesOut (150001 / 2500)) (the (call_args d_no_dir None))) 60
       = TimesOut
   \<and> run_cmd (example_world TimesOut (150001 / 2500)) ''/root/.ssh'' (rq_with_body d_no_dir)
       = (Inr (200, JDict [(''exit_code'', JInt 124), (''stdout'', JStr []),
                           (''stderr'', JStr ''timeout''),
                           (''duration_seconds'', JFloat (Finite 60))]),
          [[''ssh'', ''-o'', ''BatchMode=yes'', ''-o'', ''UserKnownHostsFile=/dev/null'',
            ''-o'', ''StrictHostKeyChecking=no'', ''-o'', ''CheckHostIP=no'',
            ''-o'', ''LogLevel=ERROR'', ''example.com'', ''--'', ''ls'']])"
proof -
  let ?w = "example_world TimesOut (150001 / 2500)"
  let ?a = "\<lparr>host = ''example.com'', command = ''ls'', user = None, port = None,
      ssh_dir = None, strict_host_key_checking = None, proxy_jump = None,
      allocate_tty = False, extra_opts = None, timeout = 60\<rparr>"
  have v: "validate_ssh_parameters d_no_dir = None"
    by (simp add: validate_None_iff d_no_dir_def constraint_defs eval_defs)
  have sd: "as_opt_str (dict_get_default d_no_dir ''ssh_dir'' (JStr ''/root/.ssh'')) = Some None"
    by (simp add: d_no_dir_def dict_get_default_def)
  have c: "checked_ssh_dir ?w None = Inr None" by (simp add: checked_ssh_dir_def)
  have a: "call_args d_no_dir None = Some ?a"
    by (simp add: call_args_def d_no_dir_def eval_defs)
  have t: "run_child ?w (ssh_argv ?w ?a) (timeout ?a) = TimesOut"
    by (simp add: example_world_def)
  have argv: "ssh_argv ?w ?a = [''ssh'', ''-o'', ''BatchMode=yes'', ''-o'', ''UserKnownHostsFile=/dev/null'',
            ''-o'', ''StrictHostKeyChecking=no'', ''-o'', ''CheckHostIP=no'',
            ''-o'', ''LogLevel=ERROR'', ''example.com'', ''--'', ''ls'']"
    by (simp add: ssh_argv_def ssh_opts_def ssh_target_def EPHEMERAL_DEFAULTS_def)
  have r: "round3 (time_end ?w - time_start ?w) = 60"
    by (simp add: example_world_def round3_example)
  from run_cmd_timeout_answers_200[OF rq_with_body_reaches v sd c a t] rq_with_body_reaches v a t argv r
  show ?thesis by (simp add: jsonify_result_def)
qed


lemma id_of_jr_result [simp]: "map_of (jr_result rid x) ''id'' = Some rid"
  by (simp add: jr_result_def)

lemma id_of_jerr [simp]: "map_of (jerr rid c m dat) ''id'' = Some rid"
  by (simp add: jerr_def jr_error_def)

lemma id_of_value_error_response [simp]: "map_of (value_error_response rid m) ''id'' = Some rid"
  by (simp add: value_error_response_def)

lemma id_of_exception_response [simp]: "map_of (exception_response rid e) ''id'' = Some rid"
  by (cases e) simp_all

lemma handle_id:
  "map_of (fst (handle w req)) ''id''
     = Some (case req of JDict r \<Rightarrow> request_id r | _ \<Rightarrow> JInt 0)"
  by (cases req)
     (simp_all add: handle_def Let_def request_id_def split: prod.splits sum.splits)

text \<open>
  What holds of the loop of \<open>main\<close>. A non-blank line on which \<open>json.loads\<close> raises
  \<open>JSONDecodeError\<close> is answered, where the response can be printed, with the error
  object of code -32700, which has no \<open>id\<close> field. The response that \<open>handle\<close>
  builds for a parsed request whose \<open>id\<close> is missing or null carries the identifier 0.
\<close>

lemma decode_error_answered_without_id:
  assumes "strip line \<noteq> []" and "json_loads w (strip line) = DecodeError"
      and "print_raises w parse_error_response = None"
  shows "main_line w line = (Answered parse_error_response, [])
         \<and> map_of parse_error_response ''id'' = None
         \<and> map_of parse_error_response ''error''
             = Some (JDict [(''code'', JInt (- 32700)),
                            (''message'', JStr ''Parse error: Invalid JSON'')])"
  using assms
  by (simp add: main_line_def Let_def print_response_def parse_error_response_def PARSE_ERROR_def)

lemma missing_id_answered_with_default:
  assumes "case req of JDict r \<Rightarrow> dict_get r ''id'' = JNull | _ \<Rightarrow> True"
  shows "map_of (fst (handle w req)) ''id'' = Some (JInt 0)"
proof -
  from assms have "(case req of JDict r \<Rightarrow> request_id r | _ \<Rightarrow> JInt 0) = JInt 0"
    by (cases req) (simp_all add: request_id_def)
  thus ?thesis by (simp add: handle_id)
qed

lemma dropWhile_replicate: "\<not> P c \<Longrightarrow> dropWhile P (replicate n c) = replicate n c"
  by (cases n) simp_all

lemma strip_replicate: "\<not> py_isspace c \<Longrightarrow> strip (replicate n c) = replicate n c"
  by (simp add: strip_def dropWhile_replicate)

text \<open>
  Claim C9 fails on the code for a line on which \<open>json.loads\<close> raises an exception
  other than \<open>JSONDecodeError\<close>. The loop catches \<open>JSONDecodeError\<close> alone: the
  exception leaves \<open>main\<close>, no response is printed for the line, and the lines after it
  are not read.
\<close>

theorem main_dies_when_loads_raises:
  assumes "strip line \<noteq> []" and "json_loads w (strip line) = LoadsRaises e"
  shows "main_line w line = (Died e, []) \<and> main w (line # rest) = ([], [], Some e)"
  using assms by (simp add: main_line_def Let_def)

text \<open>
  A line of 100000 opening brackets is no JSON text, and \<open>json.loads\<close> raises
  \<open>RecursionError\<close> on it: the server prints nothing and ends, also for the request
  that follows.
\<close>

theorem main_dies_when_loads_raises_witness:
  "strip deep_line \<noteq> []
   \<and> json_loads w_deep (strip deep_line)
       = LoadsRaises (RecursionError ''maximum recursion depth exceeded'')
   \<and> main_line w_deep deep_line
       = (Died (RecursionError ''maximum recursion depth exceeded''), [])
   \<and> main w_deep [deep_line, ''{}'']
       = ([], [], Some (RecursionError ''maximum recursion depth exceeded''))"
proof -
  have s: "strip deep_line = deep_line"
    unfolding deep_line_def by (rule strip_replicate) (simp add: py_isspace_def)
  have n: "strip deep_line \<noteq> []"
    unfolding s by (simp add: deep_line_def)
  have l: "json_loads w_deep (strip deep_line)
       = LoadsRaises (RecursionError ''maximum recursion depth exceeded'')"
    unfolding s by (simp add: w_deep_def)
  from main_dies_when_loads_raises[OF n l, of "[''{}'']"] n l show ?thesis by simp
qed

section \<open>The readers never fail after validation\<close>

text \<open>
  The \<open>TypeError\<close> branches of \<open>run_cmd\<close> and \<open>mcp_tools_call\<close> stand for values
  of a type that the record \<open>ssh_args\<close> cannot hold. Validation excludes them: neither
  adapter ever ends in one of these branches.
\<close>

lemma not_truthy_validate:
  "\<not> str_truthy (validate_ssh_parameters d) \<Longrightarrow> validate_ssh_parameters d = None"
  by (cases "validate_ssh_parameters d") (auto dest: validate_Some_nonempty)

lemma call_args_validated:
  "validate_ssh_parameters d = None \<Longrightarrow> (call_args d x = None) = False"
  using validated_call_args[of d x] by auto

lemma run_cmd_no_type_error: "fst (run_cmd w S rq) \<noteq> Inl (TypeError m)"
proof
  assume a: "fst (run_cmd w S rq) = Inl (TypeError m)"
  then obtain d where d: "get_json rq = Inr (JDict d)" "\<not> str_truthy (validate_ssh_parameters d)"
    by (auto simp: run_cmd_def Let_def no_get_def split: if_splits sum.splits json.splits)
  from d(2) have v: "validate_ssh_parameters d = None" by (rule not_truthy_validate)
  from validated_ssh_dir_http[OF v, of S] obtain sd where
    sd: "as_opt_str (dict_get_default d ''ssh_dir'' (JStr S)) = Some sd" by blast
  from a d v sd show False
    by (auto simp: run_cmd_def Let_def call_args_validated split: if_splits sum.splits option.splits prod.splits py_exc.splits)
qed

lemma validated_ssh_dir_mcp:
  assumes "validate_ssh_parameters args = None"
  shows "\<exists>sd. (if truthy (dict_get args ''ssh_dir'') then as_opt_str (dict_get args ''ssh_dir'')
               else Some (Some (case environ_SSH_DIR w of None \<Rightarrow> [] | Some s \<Rightarrow> s))) = Some sd"
proof -
  from assms have "ssh_dir_ok args" by (simp add: validate_None_iff)
  thus ?thesis by (cases "dict_get args ''ssh_dir''") (auto simp: ssh_dir_ok_def)
qed

lemma mcp_tools_call_no_type_error: "fst (mcp_tools_call w params) \<noteq> Inl (TypeError m)"
proof
  assume a: "fst (mcp_tools_call w params) = Inl (TypeError m)"
  then obtain p args where p: "params = JDict p"
      "(if truthy (dict_get p ''arguments'') then dict_get p ''arguments'' else JDict []) = JDict args"
      "\<not> str_truthy (validate_ssh_parameters args)"
    by (auto simp: mcp_tools_call_def Let_def no_get_def split: if_splits json.splits)
  from p(3) have v: "validate_ssh_parameters args = None" by (rule not_truthy_validate)
  from validated_ssh_dir_mcp[OF v, of w] obtain sd where
    sd: "(if truthy (dict_get args ''ssh_dir'') then as_opt_str (dict_get args ''ssh_dir'')
               else Some (Some (case environ_SSH_DIR w of None \<Rightarrow> [] | Some s \<Rightarrow> s))) = Some sd"
    by blast
  have ex: "(exec_ssh w c = (Inl (TypeError m), sp)) = False" for c sp
    using exec_ssh_exceptions[of w c "TypeError m"] by auto
  from a p v show False
    unfolding mcp_tools_call_def
    by (auto simp: Let_def sd no_get_def call_args_validated ex split: if_splits sum.splits option.splits prod.splits)
qed

end
